theory Spec2Isabelle
  imports Complex_Main
begin

section \<open>Strings and character classes\<close>

text \<open>
  A JavaScript string is a sequence of code units. The model uses \<open>string\<close>
  (a list of 8-bit characters), read as the code units 0..255; the character
  classes below are the ones the regular expressions of the source name.
\<close>

definition is_digit :: "char \<Rightarrow> bool" where
  \<comment> \<open>\<open>\d\<close> and \<open>[0-9]\<close>\<close>
  "is_digit c = (48 \<le> (of_char c :: nat) \<and> (of_char c :: nat) \<le> 57)"

definition is_upper :: "char \<Rightarrow> bool" where
  \<comment> \<open>\<open>[A-Z]\<close>\<close>
  "is_upper c = (65 \<le> (of_char c :: nat) \<and> (of_char c :: nat) \<le> 90)"

definition is_lower :: "char \<Rightarrow> bool" where
  \<comment> \<open>\<open>[a-z]\<close>\<close>
  "is_lower c = (97 \<le> (of_char c :: nat) \<and> (of_char c :: nat) \<le> 122)"

definition is_letter :: "char \<Rightarrow> bool" where
  \<comment> \<open>\<open>[a-zA-Z]\<close>\<close>
  "is_letter c = (is_lower c \<or> is_upper c)"

definition is_alnum :: "char \<Rightarrow> bool" where
  \<comment> \<open>\<open>[A-Za-z0-9]\<close>\<close>
  "is_alnum c = (is_upper c \<or> is_lower c \<or> is_digit c)"

definition char_at :: "string \<Rightarrow> nat \<Rightarrow> char option" where
  \<comment> \<open>\<open>s[i]\<close>: \<open>undefined\<close> (here \<open>None\<close>) outside the string\<close>
  "char_at s i = (if i < length s then Some (s ! i) else None)"

section \<open>Input masks (field-renderer: applyMask, unmaskValue)\<close>

text \<open>
  The loop of \<open>applyMask\<close> runs over the mask; its state is the output built so far
  and the index of the next unconsumed input character. A one-character string is
  always truthy, so \<open>!valueChar\<close> holds exactly when the index is past the input.
\<close>

fun applyMask_loop :: "string \<Rightarrow> string \<Rightarrow> string \<Rightarrow> nat \<Rightarrow> string \<Rightarrow> string" where
  "applyMask_loop [] value slotChar valueIndex maskedValue = maskedValue"
| "applyMask_loop (maskChar # rest) value slotChar valueIndex maskedValue =
     (case char_at value valueIndex of
        None \<Rightarrow>
          (if maskChar = CHR ''9'' \<or> maskChar = CHR ''a'' \<or> maskChar = CHR ''*''
           then applyMask_loop rest value slotChar valueIndex (maskedValue @ slotChar)
           else applyMask_loop rest value slotChar valueIndex (maskedValue @ [maskChar]))
      | Some valueChar \<Rightarrow>
          (if maskChar = CHR ''9'' then
             (if is_digit valueChar
              then applyMask_loop rest value slotChar (valueIndex + 1) (maskedValue @ [valueChar])
              else applyMask_loop rest value slotChar valueIndex (maskedValue @ slotChar))
           else if maskChar = CHR ''a'' then
             (if is_letter valueChar
              then applyMask_loop rest value slotChar (valueIndex + 1) (maskedValue @ [valueChar])
              else applyMask_loop rest value slotChar valueIndex (maskedValue @ slotChar))
           else if maskChar = CHR ''*'' then
             applyMask_loop rest value slotChar (valueIndex + 1) (maskedValue @ [valueChar])
           else
             (if valueChar = maskChar
              then applyMask_loop rest value slotChar (valueIndex + 1) (maskedValue @ [maskChar])
              else applyMask_loop rest value slotChar valueIndex (maskedValue @ [maskChar]))))"

definition applyMask :: "string \<Rightarrow> string \<Rightarrow> string \<Rightarrow> string" where
  "applyMask value maskStr slotChar =
     (if maskStr = [] \<or> value = [] then value
      else applyMask_loop maskStr value slotChar 0 [])"

text \<open>
  The loop of \<open>unmaskValue\<close> runs over the value; \<open>mask[i]\<close> is \<open>undefined\<close> once
  the value is longer than the mask, and then no test of the condition holds.
\<close>

fun unmaskValue_loop :: "string \<Rightarrow> string \<Rightarrow> nat \<Rightarrow> string \<Rightarrow> string" where
  "unmaskValue_loop [] maskStr i unmaskedValue = unmaskedValue"
| "unmaskValue_loop (valueChar # rest) maskStr i unmaskedValue =
     (let maskChar = char_at maskStr i in
      if (maskChar = Some (CHR ''9'') \<and> is_digit valueChar) \<or>
         (maskChar = Some (CHR ''a'') \<and> is_letter valueChar) \<or>
         (maskChar = Some (CHR ''*''))
      then unmaskValue_loop rest maskStr (i + 1) (unmaskedValue @ [valueChar])
      else unmaskValue_loop rest maskStr (i + 1) unmaskedValue)"

definition unmaskValue :: "string \<Rightarrow> string \<Rightarrow> string" where
  "unmaskValue value maskStr =
     (if maskStr = [] \<or> value = [] then value
      else unmaskValue_loop value maskStr 0 [])"

section \<open>Password strength (field-renderer: getPasswordStrength)\<close>

datatype strength = Weak | Medium | Strong

text \<open>
  An unanchored test such as \<open>/[A-Z]/.test(password)\<close> holds when some character of
  the password is in the class. The score is accumulated check by check, as in the
  source.
\<close>

definition getPasswordStrength :: "string \<Rightarrow> strength" where
  "getPasswordStrength password =
     (if password = [] then Weak
      else
        let score = (0::nat);
            score = (if length password \<ge> 8 then score + 1 else score);
            score = (if length password \<ge> 12 then score + 1 else score);
            score = (if list_ex is_upper password then score + 1 else score);
            score = (if list_ex is_lower password then score + 1 else score);
            score = (if list_ex is_digit password then score + 1 else score);
            score = (if list_ex (\<lambda>c. \<not> is_alnum c) password then score + 1 else score)
        in if score < 3 then Weak
           else if score < 5 then Medium
           else Strong)"

text \<open>The six criteria as the specification lists them, and the number satisfied.\<close>

definition password_criteria :: "string \<Rightarrow> bool list" where
  "password_criteria password =
     [length password \<ge> 8,
      length password \<ge> 12,
      list_ex is_upper password,
      list_ex is_lower password,
      list_ex is_digit password,
      list_ex (\<lambda>c. \<not> is_alnum c) password]"

definition criteria_score :: "string \<Rightarrow> nat" where
  "criteria_score password = length (filter (\<lambda>b. b) (password_criteria password))"

definition classify_score :: "nat \<Rightarrow> strength" where
  "classify_score score = (if score < 3 then Weak else if score < 5 then Medium else Strong)"

section \<open>JavaScript values\<close>

text \<open>
  Numbers are IEEE doubles in the source. The functions modelled here only compare
  numbers and test them for truthiness, never compute with them, so a finite number
  is modelled by the rational it denotes; \<open>NaN\<close> and the two infinities are kept
  apart. Both zeros are \<open>Fin 0\<close>.
\<close>

datatype jsnum = NaN | NegInf | Fin rat | PosInf

fun js_lt :: "jsnum \<Rightarrow> jsnum \<Rightarrow> bool" where
  \<comment> \<open>\<open>a < b\<close> on numbers: false as soon as one side is \<open>NaN\<close>\<close>
  "js_lt NaN b = False"
| "js_lt a NaN = False"
| "js_lt NegInf b = (b \<noteq> NegInf)"
| "js_lt (Fin x) (Fin y) = (x < y)"
| "js_lt (Fin x) PosInf = True"
| "js_lt (Fin x) NegInf = False"
| "js_lt PosInf b = False"

definition js_gt :: "jsnum \<Rightarrow> jsnum \<Rightarrow> bool" where
  \<comment> \<open>\<open>a > b\<close>\<close>
  "js_gt a b = js_lt b a"

definition num_truthy :: "jsnum \<Rightarrow> bool" where
  "num_truthy n = (n \<noteq> NaN \<and> n \<noteq> Fin 0)"

datatype jsval =
    JUndefined
  | JNull
  | JBool bool
  | JNum jsnum
  | JStr string
  | JArr "jsval list"
  | JObj "(string \<times> jsval) list"

fun truthy :: "jsval \<Rightarrow> bool" where
  "truthy JUndefined = False"
| "truthy JNull = False"
| "truthy (JBool b) = b"
| "truthy (JNum n) = num_truthy n"
| "truthy (JStr s) = (s \<noteq> [])"
| "truthy (JArr xs) = True"
| "truthy (JObj kvs) = True"

definition js_or :: "jsval \<Rightarrow> jsval \<Rightarrow> jsval" where
  \<comment> \<open>\<open>a || b\<close>\<close>
  "js_or a b = (if truthy a then a else b)"

text \<open>
  An object whose keys are computed or assigned one by one is a map from key to
  value. Reading a key that is absent gives \<open>undefined\<close>; assigning \<open>undefined\<close> to a
  key leaves the key present.
\<close>

type_synonym obj = "string \<rightharpoonup> jsval"

definition get :: "obj \<Rightarrow> string \<Rightarrow> jsval" where
  "get ob k = (case ob k of None \<Rightarrow> JUndefined | Some v \<Rightarrow> v)"

section \<open>Field kinds (store: FieldTypeEnum)\<close>

datatype FieldTypeEnum =
    TEXT | NUMBER | DATE | IMAGE | RICH_TEXT | MASK | CALENDAR | EDITOR | PASSWORD
  | AUTOCOMPLETE | CASCADE_SELECT | DROPDOWN | FILE | MULTI_STATE_CHECKBOX | MULTI_SELECT
  | MENTION | TEXTAREA | OTP
  | RICH_TEXT_BLOCKS | RICH_TEXT_MARKDOWN | BOOLEAN | JSON | EMAIL | MEDIA | ENUMERATION
  | RELATION | UID | COMPONENT | DYNAMIC_ZONE | INPUT_MASK | INPUT_TEXTAREA

fun enum_value :: "FieldTypeEnum \<Rightarrow> string" where
  "enum_value TEXT = ''text''"
| "enum_value NUMBER = ''number''"
| "enum_value DATE = ''date''"
| "enum_value IMAGE = ''image''"
| "enum_value RICH_TEXT = ''rich_text''"
| "enum_value MASK = ''mask''"
| "enum_value CALENDAR = ''calendar''"
| "enum_value EDITOR = ''editor''"
| "enum_value PASSWORD = ''password''"
| "enum_value AUTOCOMPLETE = ''autocomplete''"
| "enum_value CASCADE_SELECT = ''cascade_select''"
| "enum_value DROPDOWN = ''dropdown''"
| "enum_value FILE = ''file''"
| "enum_value MULTI_STATE_CHECKBOX = ''multi_state_checkbox''"
| "enum_value MULTI_SELECT = ''multi_select''"
| "enum_value MENTION = ''mention''"
| "enum_value TEXTAREA = ''textarea''"
| "enum_value OTP = ''otp''"
| "enum_value RICH_TEXT_BLOCKS = ''rich_text_blocks''"
| "enum_value RICH_TEXT_MARKDOWN = ''rich_text_markdown''"
| "enum_value BOOLEAN = ''boolean''"
| "enum_value JSON = ''json''"
| "enum_value EMAIL = ''email''"
| "enum_value MEDIA = ''media''"
| "enum_value ENUMERATION = ''enumeration''"
| "enum_value RELATION = ''relation''"
| "enum_value UID = ''uid''"
| "enum_value COMPONENT = ''component''"
| "enum_value DYNAMIC_ZONE = ''dynamic_zone''"
| "enum_value INPUT_MASK = ''input_mask''"
| "enum_value INPUT_TEXTAREA = ''input_textarea''"

definition FieldTypeEnum_members :: "FieldTypeEnum list" where
  "FieldTypeEnum_members =
     [TEXT, NUMBER, DATE, IMAGE, RICH_TEXT, MASK, CALENDAR, EDITOR, PASSWORD,
      AUTOCOMPLETE, CASCADE_SELECT, DROPDOWN, FILE, MULTI_STATE_CHECKBOX, MULTI_SELECT,
      MENTION, TEXTAREA, OTP,
      RICH_TEXT_BLOCKS, RICH_TEXT_MARKDOWN, BOOLEAN, JSON, EMAIL, MEDIA, ENUMERATION,
      RELATION, UID, COMPONENT, DYNAMIC_ZONE, INPUT_MASK, INPUT_TEXTAREA]"

definition FieldTypeEnum_values :: "string list" where
  \<comment> \<open>\<open>Object.values(FieldTypeEnum)\<close>, in declaration order\<close>
  "FieldTypeEnum_values = map enum_value FieldTypeEnum_members"

section \<open>Field type registry (use-field-types: mapFieldTypeNameToEnum)\<close>

text \<open>
  The function returns its result and writes to the console; the model returns the
  result together with the warnings written. The cast \<open>name as FieldTypeEnum\<close> does
  nothing at run time, so the result is the string itself. The source also computes
  \<open>name.toUpperCase()\<close> into a constant that it never reads; on a string this cannot
  fail and it is left out.
\<close>

definition not_found_warning :: "string \<Rightarrow> string" where
  "not_found_warning nm = ''Field type '' @ nm @ '' not found in FieldTypeEnum, defaulting to TEXT''"

definition mapFieldTypeNameToEnum :: "string \<Rightarrow> string \<times> string list" where
  "mapFieldTypeNameToEnum nm =
     (if nm \<in> set FieldTypeEnum_values then (nm, [])
      else (enum_value TEXT, [not_found_warning nm]))"

section \<open>Field configuration engine (FieldConfigDialog: onSubmit)\<close>

text \<open>
  The default-fill part of \<open>onSubmit\<close> is a sequence of assignments of two shapes,
  \<open>o.k = o.k || d\<close> and \<open>o.k = o.k !== undefined ? o.k : d\<close>. Each kind's defaults are
  written as the list of these assignments in source order: the key, the shape, and
  the default \<open>d\<close>.
\<close>

datatype fill_mode = OrElse | IfUndefined

type_synonym default_rule = "string \<times> fill_mode \<times> jsval"

fun fill_value :: "fill_mode \<Rightarrow> jsval \<Rightarrow> jsval \<Rightarrow> jsval" where
  "fill_value OrElse d x = js_or x d"
| "fill_value IfUndefined d x = (if x \<noteq> JUndefined then x else d)"

fun assign_default :: "default_rule \<Rightarrow> obj \<Rightarrow> obj" where
  "assign_default (k, m, d) ob = ob(k \<mapsto> fill_value m d (get ob k))"

definition assign_defaults :: "default_rule list \<Rightarrow> obj \<Rightarrow> obj" where
  "assign_defaults rules ob = fold assign_default rules ob"

definition TEXT_attributes_defaults :: "default_rule list" where
  "TEXT_attributes_defaults =
     [(''placeholder'', OrElse, JStr ''Enter text...''),
      (''keyfilter'', OrElse, JStr ''''),
      (''helpText'', OrElse, JStr ''''),
      (''floatLabel'', IfUndefined, JBool True),
      (''disabled'', OrElse, JBool False),
      (''icon'', OrElse, JStr ''''),
      (''tooltip'', OrElse, JStr ''''),
      (''tooltipPosition'', OrElse, JStr ''top''),
      (''tooltipEvent'', OrElse, JStr ''hover''),
      (''autoClear'', OrElse, JBool False),
      (''variant'', OrElse, JStr ''outlined'')]"

definition TEXT_validations_defaults :: "default_rule list" where
  "TEXT_validations_defaults =
     [(''minLength'', OrElse, JUndefined),
      (''maxLength'', OrElse, JUndefined),
      (''regex'', OrElse, JStr ''''),
      (''apiUrl'', OrElse, JStr '''')]"

definition INPUT_MASK_attributes_defaults :: "default_rule list" where
  "INPUT_MASK_attributes_defaults =
     [(''placeholder'', OrElse, JStr ''Enter text...''),
      (''mask'', OrElse, JStr ''999-999-9999''),
      (''slotChar'', OrElse, JStr ''_''),
      (''helpText'', OrElse, JStr ''''),
      (''floatLabel'', IfUndefined, JBool True),
      (''disabled'', OrElse, JBool False),
      (''icon'', OrElse, JStr ''''),
      (''autoClear'', OrElse, JBool False),
      (''variant'', OrElse, JStr ''outlined''),
      (''invalid'', OrElse, JBool False)]"

definition INPUT_MASK_validations_defaults :: "obj \<Rightarrow> default_rule list" where
  "INPUT_MASK_validations_defaults attrs =
     [(''required'', OrElse, JBool False),
      (''mask'', OrElse, get attrs ''mask''),
      (''regex'', OrElse, JStr ''''),
      (''unmask'', IfUndefined, JBool False)]"

definition RICH_TEXT_attributes_defaults :: "default_rule list" where
  "RICH_TEXT_attributes_defaults =
     [(''rows'', OrElse, JNum (Fin 10)),
      (''cols'', OrElse, JNum (Fin 80)),
      (''autoResize'', IfUndefined, JBool True),
      (''placeholder'', OrElse, JStr ''Enter rich text...'')]"

definition NUMBER_attributes_defaults :: "default_rule list" where
  "NUMBER_attributes_defaults =
     [(''placeholder'', OrElse, JStr ''Enter number...''),
      (''helpText'', OrElse, JStr ''''),
      (''mode'', OrElse, JStr ''decimal''),
      (''locale'', OrElse, JStr ''en-US''),
      (''suffix'', OrElse, JStr ''''),
      (''prefix'', OrElse, JStr ''''),
      (''showButtons'', OrElse, JBool False),
      (''currency'', OrElse, JStr ''USD''),
      (''step'', OrElse, JNum (Fin 1)),
      (''min'', OrElse, JUndefined),
      (''max'', OrElse, JUndefined),
      (''minFractionDigits'', OrElse, JNum (Fin 0)),
      (''maxFractionDigits'', OrElse, JNum (Fin 2)),
      (''incrementButtonIcon'', OrElse, JStr ''plus''),
      (''decrementButtonIcon'', OrElse, JStr ''minus''),
      (''decrementButtonClassName'', OrElse, JStr ''''),
      (''incrementButtonClassName'', OrElse, JStr ''''),
      (''buttonLayout'', OrElse, JStr ''stacked''),
      (''autoClear'', OrElse, JBool False),
      (''icon'', OrElse, JStr ''''),
      (''floatLabel'', IfUndefined, JBool True),
      (''variant'', OrElse, JStr ''outlined''),
      (''invalid'', OrElse, JBool False),
      (''disabled'', OrElse, JBool False),
      (''useGrouping'', IfUndefined, JBool True)]"

definition NUMBER_validations_defaults :: "default_rule list" where
  "NUMBER_validations_defaults =
     [(''required'', OrElse, JBool False),
      (''minValue'', OrElse, JUndefined),
      (''maxValue'', OrElse, JUndefined),
      (''minFractionDigits'', OrElse, JUndefined),
      (''maxFractionDigits'', OrElse, JUndefined)]"

definition DATE_attributes_defaults :: "default_rule list" where
  "DATE_attributes_defaults =
     [(''dateFormat'', OrElse, JStr ''mm/dd/yy''),
      (''locale'', OrElse, JStr ''en-US''),
      (''showIcon'', IfUndefined, JBool True),
      (''minDate'', OrElse, JStr ''''),
      (''maxDate'', OrElse, JStr ''''),
      (''readOnlyInput'', OrElse, JBool False),
      (''selectionMode'', OrElse, JStr ''single''),
      (''hideOnRangeSelection'', OrElse, JBool False),
      (''showButtonBar'', IfUndefined, JBool True),
      (''view'', OrElse, JStr ''month''),
      (''numberOfMonths'', OrElse, JNum (Fin 1)),
      (''showTime'', OrElse, JBool False),
      (''hourFormat'', OrElse, JStr ''24''),
      (''timeOnly'', OrElse, JBool False),
      (''variant'', OrElse, JStr ''outlined''),
      (''icon'', OrElse, JStr ''''),
      (''floatLabel'', IfUndefined, JBool True),
      (''invalid'', OrElse, JBool False),
      (''disabled'', OrElse, JBool False),
      (''inline'', OrElse, JBool False),
      (''showWeek'', OrElse, JBool False)]"

definition JSON_attributes_defaults :: "default_rule list" where
  "JSON_attributes_defaults =
     [(''rows'', OrElse, JNum (Fin 10)),
      (''autoResize'', IfUndefined, JBool True)]"

definition EMAIL_attributes_defaults :: "default_rule list" where
  "EMAIL_attributes_defaults =
     [(''placeholder'', OrElse, JStr ''Enter email...''),
      (''keyfilter'', OrElse, JStr ''email'')]"

definition PASSWORD_attributes_defaults :: "default_rule list" where
  "PASSWORD_attributes_defaults =
     [(''promptLabel'', OrElse, JStr ''Enter a password''),
      (''icon'', OrElse, JStr ''''),
      (''variant'', OrElse, JStr ''outlined''),
      (''weakLabel'', OrElse, JStr ''Weak''),
      (''mediumLabel'', OrElse, JStr ''Medium''),
      (''strongLabel'', OrElse, JStr ''Strong''),
      (''feedback'', IfUndefined, JBool True),
      (''toggleMask'', IfUndefined, JBool True),
      (''floatLabel'', IfUndefined, JBool True),
      (''invalid'', OrElse, JBool False),
      (''disabled'', OrElse, JBool False)]"

definition PASSWORD_validations_defaults :: "default_rule list" where
  "PASSWORD_validations_defaults =
     [(''required'', OrElse, JBool False),
      (''minLength'', OrElse, JUndefined),
      (''maxLength'', OrElse, JUndefined),
      (''regex'', OrElse, JStr '''')]"

definition ENUMERATION_attributes_defaults :: "default_rule list" where
  "ENUMERATION_attributes_defaults =
     [(''dropdown'', IfUndefined, JBool True),
      (''multiple'', OrElse, JBool False),
      (''filter'', IfUndefined, JBool True),
      (''showClear'', IfUndefined, JBool True)]"

definition MEDIA_attributes_defaults :: "default_rule list" where
  "MEDIA_attributes_defaults =
     [(''mode'', OrElse, JStr ''basic''),
      (''accept'', OrElse, JStr ''image/*''),
      (''maxFileSize'', OrElse, JNum (Fin 10000000)),
      (''auto'', IfUndefined, JBool True),
      (''chooseLabel'', OrElse, JStr ''Choose'')]"

definition RELATION_attributes_defaults :: "default_rule list" where
  "RELATION_attributes_defaults =
     [(''dropdown'', IfUndefined, JBool True),
      (''filter'', IfUndefined, JBool True)]"

definition AUTOCOMPLETE_attributes_defaults :: "default_rule list" where
  "AUTOCOMPLETE_attributes_defaults =
     [(''placeholder'', OrElse, JStr ''Start typing...''),
      (''icon'', OrElse, JStr ''''),
      (''variant'', OrElse, JStr ''outlined''),
      (''dropdown'', IfUndefined, JBool True),
      (''object'', OrElse, JBool False),
      (''group'', OrElse, JBool False),
      (''forceSelection'', OrElse, JBool False),
      (''multiple'', OrElse, JBool False),
      (''floatLabel'', IfUndefined, JBool True),
      (''invalid'', OrElse, JBool False),
      (''disabled'', OrElse, JBool False)]"

definition CASCADE_SELECT_attributes_defaults :: "default_rule list" where
  "CASCADE_SELECT_attributes_defaults =
     [(''placeholder'', OrElse, JStr ''Select a value...''),
      (''variant'', OrElse, JStr ''outlined''),
      (''optionLabel'', OrElse, JStr ''label''),
      (''optionValue'', OrElse, JStr ''value''),
      (''optionGroupLabel'', OrElse, JStr ''label''),
      (''optionGroupChildren'', OrElse, JStr ''items''),
      (''options'', OrElse, JArr []),
      (''floatLabel'', IfUndefined, JBool True),
      (''invalid'', OrElse, JBool False),
      (''disabled'', OrElse, JBool False)]"

definition DROPDOWN_attributes_defaults :: "default_rule list" where
  "DROPDOWN_attributes_defaults =
     [(''placeholder'', OrElse, JStr ''Select an option...''),
      (''variant'', OrElse, JStr ''outlined''),
      (''options'', OrElse, JArr []),
      (''optionLabel'', OrElse, JStr ''text''),
      (''optionValue'', OrElse, JStr ''value''),
      (''optionGroupLabel'', OrElse, JStr ''label''),
      (''optionGroupChildren'', OrElse, JStr ''items''),
      (''checkmark'', IfUndefined, JBool True),
      (''highlightOnSelect'', IfUndefined, JBool True),
      (''editable'', OrElse, JBool False),
      (''filter'', IfUndefined, JBool True),
      (''showClear'', OrElse, JBool False),
      (''loading'', OrElse, JBool False),
      (''floatLabel'', IfUndefined, JBool True),
      (''invalid'', OrElse, JBool False),
      (''disabled'', OrElse, JBool False),
      (''optionGroupTemplate'', OrElse, JStr ''''),
      (''valueTemplate'', OrElse, JStr ''''),
      (''itemTemplate'', OrElse, JStr ''''),
      (''panelFooterTemplate'', OrElse, JStr '''')]"

definition INPUT_TEXTAREA_attributes_defaults :: "default_rule list" where
  "INPUT_TEXTAREA_attributes_defaults =
     [(''placeholder'', OrElse, JStr ''Enter text...''),
      (''rows'', OrElse, JNum (Fin 5)),
      (''cols'', OrElse, JUndefined),
      (''autoResize'', IfUndefined, JBool True),
      (''keyfilter'', OrElse, JStr ''''),
      (''floatLabel'', IfUndefined, JBool True),
      (''variant'', OrElse, JStr ''outlined''),
      (''disabled'', OrElse, JBool False),
      (''invalid'', OrElse, JBool False),
      (''helpText'', OrElse, JStr '''')]"

definition INPUT_TEXTAREA_validations_defaults :: "default_rule list" where
  "INPUT_TEXTAREA_validations_defaults =
     [(''required'', OrElse, JBool False),
      (''minLength'', OrElse, JUndefined),
      (''maxLength'', OrElse, JUndefined)]"

definition UID_attributes_defaults :: "default_rule list" where
  "UID_attributes_defaults =
     [(''placeholder'', OrElse, JStr ''Auto-generated UID''),
      (''disabled'', IfUndefined, JBool True)]"

text \<open>
  The text kind sets \<open>tooltipOptions\<close> last, from the position and event just filled in.
\<close>

definition TEXT_tooltipOptions :: "obj \<Rightarrow> default_rule" where
  "TEXT_tooltipOptions attrs =
     (''tooltipOptions'', OrElse,
      JObj [(''position'', js_or (get attrs ''tooltipPosition'') (JStr ''top'')),
            (''event'', js_or (get attrs ''tooltipEvent'') (JStr ''hover''))])"

definition TEXT_attributes :: "obj \<Rightarrow> obj" where
  "TEXT_attributes attrs =
     (let attrs = assign_defaults TEXT_attributes_defaults attrs
      in assign_default (TEXT_tooltipOptions attrs) attrs)"

text \<open>
  The form values that \<open>onSubmit\<close> copies into \<open>fieldData\<close> and that the default-fill
  reads or writes. Every form value may be \<open>undefined\<close> (the schema is partial).
\<close>

record field_data =
  fd_name :: jsval
  fd_type :: jsval
  fd_dependOn :: jsval
  fd_uniqueId :: jsval
  fd_displayName :: jsval
  fd_isVisible :: jsval
  fd_getApiUrl :: jsval
  fd_attributes :: "obj option"
  fd_validations :: "obj option"

definition obj_of :: "obj option \<Rightarrow> obj" where
  \<comment> \<open>\<open>if (!fieldData.attributes) fieldData.attributes = {}\<close>: an object is truthy\<close>
  "obj_of ob = (case ob of None \<Rightarrow> Map.empty | Some m \<Rightarrow> m)"

definition ensure_objects :: "field_data \<Rightarrow> field_data" where
  "ensure_objects fd =
     fd\<lparr>fd_attributes := Some (obj_of (fd_attributes fd)),
        fd_validations := Some (obj_of (fd_validations fd))\<rparr>"

definition fill_attributes :: "(obj \<Rightarrow> obj) \<Rightarrow> field_data \<Rightarrow> field_data" where
  "fill_attributes f fd = fd\<lparr>fd_attributes := Some (f (obj_of (fd_attributes fd)))\<rparr>"

definition fill_validations :: "(obj \<Rightarrow> obj) \<Rightarrow> field_data \<Rightarrow> field_data" where
  "fill_validations f fd = fd\<lparr>fd_validations := Some (f (obj_of (fd_validations fd)))\<rparr>"

definition common_properties :: "field_data \<Rightarrow> field_data" where
  "common_properties fd =
     (let fd = fd\<lparr>fd_dependOn := js_or (fd_dependOn fd) (JStr '''')\<rparr>;
          fd = fd\<lparr>fd_uniqueId := js_or (fd_uniqueId fd) (JStr '''')\<rparr>;
          fd = fd\<lparr>fd_displayName := js_or (fd_displayName fd) (fd_name fd)\<rparr>;
          fd = fd\<lparr>fd_isVisible :=
                   (if fd_isVisible fd \<noteq> JUndefined then fd_isVisible fd else JBool True)\<rparr>
      in fd)"

definition is_kind :: "jsval \<Rightarrow> FieldTypeEnum \<Rightarrow> bool" where
  \<comment> \<open>\<open>case FieldTypeEnum.K:\<close> of \<open>switch (data.type)\<close>\<close>
  "is_kind t k = (t = JStr (enum_value k))"

definition kind_defaults :: "jsval \<Rightarrow> field_data \<Rightarrow> field_data" where
  "kind_defaults t fd =
     (if is_kind t TEXT then
        fill_validations (assign_defaults TEXT_validations_defaults)
          (fill_attributes TEXT_attributes fd)
      else if is_kind t INPUT_MASK then
        (let fd = fill_attributes (assign_defaults INPUT_MASK_attributes_defaults) fd
         in fill_validations
              (assign_defaults (INPUT_MASK_validations_defaults (obj_of (fd_attributes fd)))) fd)
      else if is_kind t RICH_TEXT_BLOCKS \<or> is_kind t RICH_TEXT_MARKDOWN then
        fill_attributes (assign_defaults RICH_TEXT_attributes_defaults) fd
      else if is_kind t NUMBER then
        fill_validations (assign_defaults NUMBER_validations_defaults)
          (fill_attributes (assign_defaults NUMBER_attributes_defaults) fd)
      else if is_kind t DATE then
        common_properties (fill_attributes (assign_defaults DATE_attributes_defaults) fd)
      else if is_kind t BOOLEAN then fd
      else if is_kind t JSON then
        fill_attributes (assign_defaults JSON_attributes_defaults) fd
      else if is_kind t EMAIL then
        fill_attributes (assign_defaults EMAIL_attributes_defaults) fd
      else if is_kind t PASSWORD then
        fill_validations (assign_defaults PASSWORD_validations_defaults)
          (common_properties
            (fill_attributes (assign_defaults PASSWORD_attributes_defaults) fd))
      else if is_kind t ENUMERATION then
        fill_attributes (assign_defaults ENUMERATION_attributes_defaults) fd
      else if is_kind t MEDIA then
        fill_attributes (assign_defaults MEDIA_attributes_defaults) fd
      else if is_kind t RELATION then
        fill_attributes (assign_defaults RELATION_attributes_defaults) fd
      else if is_kind t AUTOCOMPLETE then
        common_properties (fill_attributes (assign_defaults AUTOCOMPLETE_attributes_defaults) fd)
      else if is_kind t CASCADE_SELECT then
        common_properties
          (fill_attributes (assign_defaults CASCADE_SELECT_attributes_defaults) fd)
      else if is_kind t DROPDOWN then
        (let fd = common_properties
                    (fill_attributes (assign_defaults DROPDOWN_attributes_defaults) fd)
         in fd\<lparr>fd_getApiUrl := js_or (fd_getApiUrl fd) (JStr '''')\<rparr>)
      else if is_kind t INPUT_TEXTAREA then
        common_properties
          (fill_validations (assign_defaults INPUT_TEXTAREA_validations_defaults)
            (fill_attributes (assign_defaults INPUT_TEXTAREA_attributes_defaults) fd))
      else if is_kind t UID then
        fill_attributes (assign_defaults UID_attributes_defaults) fd
      else if is_kind t COMPONENT then fd
      else if is_kind t DYNAMIC_ZONE then fd
      else fd)"

definition default_fill :: "field_data \<Rightarrow> field_data" where
  \<comment> \<open>\<open>onSubmit\<close> from the two \<open>{}\<close> initialisations to the end of the switch\<close>
  "default_fill fd = kind_defaults (fd_type fd) (ensure_objects fd)"

text \<open>
  The assignments that the switch makes to \<open>attributes\<close> and to \<open>validations\<close> for a
  kind, as one list each, to name the default of a key. The text kind's list ends with
  \<open>tooltipOptions\<close>, whose default is built from the attributes filled so far; the
  mask kind's \<open>validations.mask\<close> defaults to the filled \<open>attributes.mask\<close>.
\<close>

definition attribute_rules :: "jsval \<Rightarrow> obj \<Rightarrow> default_rule list" where
  "attribute_rules t attrs =
     (if is_kind t TEXT then
        TEXT_attributes_defaults
          @ [TEXT_tooltipOptions (assign_defaults TEXT_attributes_defaults attrs)]
      else if is_kind t INPUT_MASK then INPUT_MASK_attributes_defaults
      else if is_kind t RICH_TEXT_BLOCKS \<or> is_kind t RICH_TEXT_MARKDOWN then
        RICH_TEXT_attributes_defaults
      else if is_kind t NUMBER then NUMBER_attributes_defaults
      else if is_kind t DATE then DATE_attributes_defaults
      else if is_kind t BOOLEAN then []
      else if is_kind t JSON then JSON_attributes_defaults
      else if is_kind t EMAIL then EMAIL_attributes_defaults
      else if is_kind t PASSWORD then PASSWORD_attributes_defaults
      else if is_kind t ENUMERATION then ENUMERATION_attributes_defaults
      else if is_kind t MEDIA then MEDIA_attributes_defaults
      else if is_kind t RELATION then RELATION_attributes_defaults
      else if is_kind t AUTOCOMPLETE then AUTOCOMPLETE_attributes_defaults
      else if is_kind t CASCADE_SELECT then CASCADE_SELECT_attributes_defaults
      else if is_kind t DROPDOWN then DROPDOWN_attributes_defaults
      else if is_kind t INPUT_TEXTAREA then INPUT_TEXTAREA_attributes_defaults
      else if is_kind t UID then UID_attributes_defaults
      else [])"

definition validation_rules :: "jsval \<Rightarrow> obj \<Rightarrow> default_rule list" where
  "validation_rules t filled_attrs =
     (if is_kind t TEXT then TEXT_validations_defaults
      else if is_kind t INPUT_MASK then INPUT_MASK_validations_defaults filled_attrs
      else if is_kind t RICH_TEXT_BLOCKS \<or> is_kind t RICH_TEXT_MARKDOWN then []
      else if is_kind t NUMBER then NUMBER_validations_defaults
      else if is_kind t DATE then []
      else if is_kind t BOOLEAN then []
      else if is_kind t JSON then []
      else if is_kind t EMAIL then []
      else if is_kind t PASSWORD then PASSWORD_validations_defaults
      else if is_kind t ENUMERATION then []
      else if is_kind t MEDIA then []
      else if is_kind t RELATION then []
      else if is_kind t AUTOCOMPLETE then []
      else if is_kind t CASCADE_SELECT then []
      else if is_kind t DROPDOWN then []
      else if is_kind t INPUT_TEXTAREA then INPUT_TEXTAREA_validations_defaults
      else [])"

definition example_falsy_field :: field_data where
  \<comment> \<open>a text field with falsy values of the user's own\<close>
  "example_falsy_field =
     \<lparr>fd_name = JStr ''Title'', fd_type = JStr ''text'', fd_dependOn = JStr '''',
      fd_uniqueId = JStr '''', fd_displayName = JStr '''', fd_isVisible = JBool True,
      fd_getApiUrl = JStr '''',
      fd_attributes = Some [''floatLabel'' \<mapsto> JBool False, ''disabled'' \<mapsto> JBool False,
                            ''helpText'' \<mapsto> JStr '''', ''rows'' \<mapsto> JNum (Fin 0),
                            ''placeholder'' \<mapsto> JStr ''''],
      fd_validations = Some [''regex'' \<mapsto> JStr '''', ''required'' \<mapsto> JBool False]\<rparr>"

definition example_mask_field :: field_data where
  \<comment> \<open>a mask field whose validation the user has switched off\<close>
  "example_mask_field =
     \<lparr>fd_name = JStr ''Phone'', fd_type = JStr ''input_mask'', fd_dependOn = JStr '''',
      fd_uniqueId = JStr '''', fd_displayName = JStr '''', fd_isVisible = JBool True,
      fd_getApiUrl = JStr '''',
      fd_attributes = Some Map.empty,
      fd_validations = Some [''required'' \<mapsto> JBool False]\<rparr>"

definition example_text_field :: field_data where
  \<comment> \<open>a text field whose placeholder the user has set to the empty string\<close>
  "example_text_field =
     \<lparr>fd_name = JStr ''Title'', fd_type = JStr ''text'', fd_dependOn = JStr '''',
      fd_uniqueId = JStr '''', fd_displayName = JStr '''', fd_isVisible = JBool True,
      fd_getApiUrl = JStr '''',
      fd_attributes = Some [''placeholder'' \<mapsto> JStr ''''],
      fd_validations = Some Map.empty\<rparr>"

definition example_custom_field :: field_data where
  \<comment> \<open>a text field with a placeholder and a pattern of the user's own\<close>
  "example_custom_field =
     \<lparr>fd_name = JStr ''Title'', fd_type = JStr ''text'', fd_dependOn = JStr '''',
      fd_uniqueId = JStr '''', fd_displayName = JStr '''', fd_isVisible = JBool True,
      fd_getApiUrl = JStr '''',
      fd_attributes = Some [''placeholder'' \<mapsto> JStr ''Your title''],
      fd_validations = Some [''regex'' \<mapsto> JStr ''^a'']\<rparr>"

section \<open>Fields as the renderer reads them (store: Field, FieldAttributes, FieldValidations)\<close>

text \<open>
  The renderer reads a field through its declared interface, so the model is a record
  with the declared types: an optional property is an \<open>option\<close>. Only the properties
  that the modelled handlers read are kept. \<open>attr_min\<close> and \<open>attr_max\<close> are the
  attributes \<open>min\<close> and \<open>max\<close>, \<open>ftype\<close> is \<open>type\<close>.
\<close>

record FieldAttributes =
  keyfilter :: "string option"
  invalid :: "bool option"
  attr_min :: "jsnum option"
  attr_max :: "jsnum option"

record FieldValidations =
  required :: "bool option"
  minLength :: "jsnum option"
  maxLength :: "jsnum option"
  regex :: "string option"
  apiUrl :: "string option"

record Field =
  name :: string
  apiId :: string
  ftype :: FieldTypeEnum
  isVisible :: "bool option"
  attributes :: "FieldAttributes option"
  validations :: "FieldValidations option"

definition attributes_of :: "Field \<Rightarrow> FieldAttributes" where
  \<comment> \<open>\<open>field.attributes || {}\<close>\<close>
  "attributes_of field =
     (case attributes field of
        None \<Rightarrow> \<lparr>keyfilter = None, invalid = None, attr_min = None, attr_max = None\<rparr>
      | Some a \<Rightarrow> a)"

definition validations_of :: "Field \<Rightarrow> FieldValidations" where
  \<comment> \<open>\<open>field.validations || {}\<close>\<close>
  "validations_of field =
     (case validations field of
        None \<Rightarrow> \<lparr>required = None, minLength = None, maxLength = None, regex = None,
                 apiUrl = None\<rparr>
      | Some v \<Rightarrow> v)"

section \<open>Regular expressions of the key filters\<close>

text \<open>
  The key filters are anchored regular expressions (\<open>^...$\<close>, no flags), so a test is a
  match of the whole input. They are written as terms and matched by derivatives.
\<close>

datatype rx = Fail | Eps | Cls "char \<Rightarrow> bool" | Alt rx rx | Seq rx rx | Star rx

fun nullable :: "rx \<Rightarrow> bool" where
  "nullable Fail = False"
| "nullable Eps = True"
| "nullable (Cls p) = False"
| "nullable (Alt r s) = (nullable r \<or> nullable s)"
| "nullable (Seq r s) = (nullable r \<and> nullable s)"
| "nullable (Star r) = True"

fun deriv :: "char \<Rightarrow> rx \<Rightarrow> rx" where
  "deriv c Fail = Fail"
| "deriv c Eps = Fail"
| "deriv c (Cls p) = (if p c then Eps else Fail)"
| "deriv c (Alt r s) = Alt (deriv c r) (deriv c s)"
| "deriv c (Seq r s) =
     (if nullable r then Alt (Seq (deriv c r) s) (deriv c s) else Seq (deriv c r) s)"
| "deriv c (Star r) = Seq (deriv c r) (Star r)"

definition regex_test :: "rx \<Rightarrow> string \<Rightarrow> bool" where
  "regex_test r s = nullable (fold deriv s r)"

text \<open>
  The language of a pattern, to say what the matcher decides: \<open>star A\<close> is the set
  of concatenations of words of \<open>A\<close>.
\<close>

inductive_set star :: "string set \<Rightarrow> string set" for A :: "string set" where
  star_empty: "[] \<in> star A"
| star_step: "u \<in> A \<Longrightarrow> v \<in> star A \<Longrightarrow> u @ v \<in> star A"

fun lang :: "rx \<Rightarrow> string set" where
  "lang Fail = {}"
| "lang Eps = {[]}"
| "lang (Cls p) = {[c] | c. p c}"
| "lang (Alt r s) = lang r \<union> lang s"
| "lang (Seq r s) = {u @ v | u v. u \<in> lang r \<and> v \<in> lang s}"
| "lang (Star r) = star (lang r)"

definition Opt :: "rx \<Rightarrow> rx" where
  \<comment> \<open>\<open>r?\<close>\<close>
  "Opt r = Alt r Eps"

definition Chr :: "char \<Rightarrow> rx" where
  "Chr c = Cls (\<lambda>x. x = c)"

definition is_hex :: "char \<Rightarrow> bool" where
  \<comment> \<open>\<open>[0-9a-fA-F]\<close>\<close>
  "is_hex c = (is_digit c \<or> (97 \<le> (of_char c :: nat) \<and> (of_char c :: nat) \<le> 102)
                 \<or> (65 \<le> (of_char c :: nat) \<and> (of_char c :: nat) \<le> 70))"

definition kf_int :: rx where
  \<comment> \<open>\<open>/^-?\d*$/\<close>\<close>
  "kf_int = Seq (Opt (Chr (CHR ''-''))) (Star (Cls is_digit))"

definition kf_pint :: rx where
  \<comment> \<open>\<open>/^\d*$/\<close>\<close>
  "kf_pint = Star (Cls is_digit)"

definition kf_num :: rx where
  \<comment> \<open>\<open>/^-?\d*\.?\d*$/\<close>\<close>
  "kf_num = Seq (Opt (Chr (CHR ''-'')))
              (Seq (Star (Cls is_digit)) (Seq (Opt (Chr (CHR ''.''))) (Star (Cls is_digit))))"

definition kf_pnum :: rx where
  \<comment> \<open>\<open>/^\d*\.?\d*$/\<close>\<close>
  "kf_pnum = Seq (Star (Cls is_digit)) (Seq (Opt (Chr (CHR ''.''))) (Star (Cls is_digit)))"

definition kf_money :: rx where
  \<comment> \<open>\<open>/^-?\d*\.?\d{0,2}$/\<close>\<close>
  "kf_money = Seq (Opt (Chr (CHR ''-'')))
                (Seq (Star (Cls is_digit))
                  (Seq (Opt (Chr (CHR ''.''))) (Seq (Opt (Cls is_digit)) (Opt (Cls is_digit)))))"

definition kf_hex :: rx where
  \<comment> \<open>\<open>/^[0-9a-fA-F]*$/\<close>\<close>
  "kf_hex = Star (Cls is_hex)"

definition kf_alpha :: rx where
  \<comment> \<open>\<open>/^[a-zA-Z]*$/\<close>\<close>
  "kf_alpha = Star (Cls is_letter)"

definition kf_alphanum :: rx where
  \<comment> \<open>\<open>/^[a-zA-Z0-9]*$/\<close>\<close>
  "kf_alphanum = Star (Cls is_alnum)"

section \<open>Text input: change handler (field-renderer: renderField, TEXT onChange)\<close>

text \<open>
  The handler either returns early or calls \<open>onChange\<close> once: the result is the
  argument of the call, or \<open>None\<close> when there is no call.
\<close>

definition text_onChange :: "Field \<Rightarrow> string \<Rightarrow> string option" where
  "text_onChange field inputValue =
     (case keyfilter (attributes_of field) of
        None \<Rightarrow> Some inputValue
      | Some kf \<Rightarrow>
          if kf = [] then Some inputValue
          else if kf = ''int'' then
            (if \<not> regex_test kf_int inputValue then None else Some inputValue)
          else if kf = ''pint'' then
            (if \<not> regex_test kf_pint inputValue then None else Some inputValue)
          else if kf = ''num'' then
            (if \<not> regex_test kf_num inputValue then None else Some inputValue)
          else if kf = ''pnum'' then
            (if \<not> regex_test kf_pnum inputValue then None else Some inputValue)
          else if kf = ''money'' then
            (if \<not> regex_test kf_money inputValue then None else Some inputValue)
          else if kf = ''hex'' then
            (if \<not> regex_test kf_hex inputValue then None else Some inputValue)
          else if kf = ''alpha'' then
            (if \<not> regex_test kf_alpha inputValue then None else Some inputValue)
          else if kf = ''alphanum'' then
            (if \<not> regex_test kf_alphanum inputValue then None else Some inputValue)
          else if kf = ''email'' then Some inputValue
          else Some inputValue)"

text \<open>
  The content form passes \<open>(value) => handleFieldChange(field, value)\<close> as \<open>onChange\<close>,
  and \<open>handleFieldChange\<close> stores the value under the field's \<open>apiId\<close>.
\<close>

type_synonym form_data = "string \<rightharpoonup> jsval"

definition handleFieldChange :: "Field \<Rightarrow> jsval \<Rightarrow> form_data \<Rightarrow> form_data" where
  "handleFieldChange field v prev = prev(apiId field \<mapsto> v)"

definition text_input_event :: "Field \<Rightarrow> string \<Rightarrow> form_data \<Rightarrow> form_data" where
  "text_input_event field inputValue formData =
     (case text_onChange field inputValue of
        None \<Rightarrow> formData
      | Some v \<Rightarrow> handleFieldChange field (JStr v) formData)"

definition filtered_text_field :: "string \<Rightarrow> Field" where
  \<comment> \<open>a short-text field with the given key filter\<close>
  "filtered_text_field kf =
     \<lparr>name = ''Quantity'', apiId = ''qty'', ftype = TEXT, isVisible = Some True,
      attributes = Some \<lparr>keyfilter = Some kf, invalid = None, attr_min = None,
                           attr_max = None\<rparr>,
      validations = None\<rparr>"

definition keyfilter_classes :: "(string \<times> rx) list" where
  \<comment> \<open>the eight filtering classes and their patterns\<close>
  "keyfilter_classes =
     [(''int'', kf_int), (''pint'', kf_pint), (''num'', kf_num), (''pnum'', kf_pnum),
      (''money'', kf_money), (''hex'', kf_hex), (''alpha'', kf_alpha),
      (''alphanum'', kf_alphanum)]"

section \<open>Blur-time validation (field-renderer: renderField, TEXT and INPUT_TEXTAREA onBlur)\<close>

text \<open>
  \<open>new RegExp(pattern)\<close> is the platform's: it is a parameter, giving the test of the
  compiled pattern, or \<open>None\<close> when the constructor throws. A handler returns the final
  \<open>isValid\<close> and the lines it wrote to the console.
\<close>

type_synonym regexp_ctor = "string \<Rightarrow> (string \<Rightarrow> bool) option"

definition length_below :: "string \<Rightarrow> jsnum option \<Rightarrow> bool" where
  \<comment> \<open>\<open>bound && value.length < bound\<close>\<close>
  "length_below v bound =
     (case bound of
        None \<Rightarrow> False
      | Some n \<Rightarrow> num_truthy n \<and> js_lt (Fin (of_nat (length v))) n)"

definition length_above :: "string \<Rightarrow> jsnum option \<Rightarrow> bool" where
  \<comment> \<open>\<open>bound && value.length > bound\<close>\<close>
  "length_above v bound =
     (case bound of
        None \<Rightarrow> False
      | Some n \<Rightarrow> num_truthy n \<and> js_gt (Fin (of_nat (length v))) n)"

definition validation_log :: "Field \<Rightarrow> bool \<Rightarrow> string list" where
  \<comment> \<open>\<open>if (attributes.invalid !== !isValid) console.log(...)\<close>\<close>
  "validation_log field isValid =
     (if invalid (attributes_of field) \<noteq> Some (\<not> isValid)
      then [''Field validation: '' @ name field @ (if isValid then '' valid'' else '' invalid'')]
      else [])"

definition text_onBlur :: "regexp_ctor \<Rightarrow> Field \<Rightarrow> string \<Rightarrow> bool \<times> string list" where
  "text_onBlur RegExp field v =
     (let isValid = True;
          console = [];
          vs = validations_of field;
          isValid = (if length_below v (minLength vs) then False else isValid);
          isValid = (if length_above v (maxLength vs) then False else isValid);
          (isValid, console) =
            (case regex vs of
               None \<Rightarrow> (isValid, console)
             | Some pat \<Rightarrow>
                 if pat \<noteq> [] \<and> v \<noteq> [] then
                   (case RegExp pat of
                      None \<Rightarrow> (isValid, console @ [''Invalid regex pattern: '' @ pat])
                    | Some test \<Rightarrow> ((if \<not> test v then False else isValid), console))
                 else (isValid, console));
          console = console @ validation_log field isValid;
          console =
            (case apiUrl vs of
               None \<Rightarrow> console
             | Some url \<Rightarrow>
                 if url \<noteq> [] \<and> v \<noteq> []
                 then console @ [''API validation would call: '' @ url]
                 else console)
      in (isValid, console))"

definition textarea_onBlur :: "Field \<Rightarrow> string \<Rightarrow> bool \<times> string list" where
  "textarea_onBlur field v =
     (let isValid = True;
          vs = validations_of field;
          isValid = (if required vs = Some True \<and> v = [] then False else isValid);
          isValid = (if length_below v (minLength vs) then False else isValid);
          isValid = (if length_above v (maxLength vs) then False else isValid)
      in (isValid, validation_log field isValid))"

definition required_text_field :: "jsnum option \<Rightarrow> Field" where
  \<comment> \<open>a required short-text field with the given minimum length\<close>
  "required_text_field minLen =
     \<lparr>name = ''Title'', apiId = ''title'', ftype = TEXT, isVisible = Some True,
      attributes = None,
      validations = Some \<lparr>required = Some True, minLength = minLen, maxLength = None,
                            regex = None, apiUrl = None\<rparr>\<rparr>"

section \<open>Number input: change handler (field-renderer: renderField, NUMBER onChange)\<close>

text \<open>
  \<open>parseFloat\<close> is the platform's and is a parameter. The result is the argument
  passed to \<open>onChange\<close>: \<open>null\<close> for the empty input, else the parsed number after the
  two bounds have been applied, first \<open>min\<close>, then \<open>max\<close>.
\<close>

definition number_onChange :: "(string \<Rightarrow> jsnum) \<Rightarrow> Field \<Rightarrow> string \<Rightarrow> jsval" where
  "number_onChange parseFloat field val =
     (let parsedValue = (if val \<noteq> [] then Some (parseFloat val) else None)
      in case parsedValue of
           None \<Rightarrow> JNull
         | Some p \<Rightarrow>
             (let p = (case attr_min (attributes_of field) of
                         None \<Rightarrow> p
                       | Some lo \<Rightarrow> if js_lt p lo then lo else p);
                  p = (case attr_max (attributes_of field) of
                         None \<Rightarrow> p
                       | Some hi \<Rightarrow> if js_gt p hi then hi else p)
              in JNum p))"

definition number_field :: "jsnum option \<Rightarrow> jsnum option \<Rightarrow> Field" where
  \<comment> \<open>a number field with the given \<open>min\<close> and \<open>max\<close> attributes\<close>
  "number_field lo hi =
     \<lparr>name = ''Amount'', apiId = ''amount'', ftype = NUMBER, isVisible = Some True,
      attributes = Some \<lparr>keyfilter = None, invalid = None, attr_min = lo, attr_max = hi\<rparr>,
      validations = None\<rparr>"

definition parse_digit :: "string \<Rightarrow> jsnum" where
  \<comment> \<open>\<open>parseFloat\<close> on the one-digit inputs used as examples, \<open>NaN\<close> elsewhere\<close>
  "parse_digit s =
     (case s of
        [c] \<Rightarrow> if is_digit c then Fin (of_nat (of_char c - 48)) else NaN
      | _ \<Rightarrow> NaN)"

section \<open>Rendering (field-renderer: renderField)\<close>

text \<open>
  The element tree that \<open>renderField\<close> returns is reduced to the widget chosen by the
  switch; \<open>null\<close> is \<open>None\<close>.
\<close>

datatype widget =
    InputMaskWidget | TextWidget | RichTextWidget | NumberWidget | BooleanWidget | DateWidget
  | JsonWidget | EmailWidget | PasswordWidget | AutocompleteWidget | CascadeSelectWidget
  | DropdownWidget | MediaWidget | InputTextareaWidget | DefaultWidget

definition renderField :: "Field \<Rightarrow> jsval \<Rightarrow> widget option" where
  "renderField field v =
     (if isVisible field = Some False then None
      else Some
        (case ftype field of
           INPUT_MASK \<Rightarrow> InputMaskWidget
         | TEXT \<Rightarrow> TextWidget
         | RICH_TEXT_BLOCKS \<Rightarrow> RichTextWidget
         | RICH_TEXT_MARKDOWN \<Rightarrow> RichTextWidget
         | NUMBER \<Rightarrow> NumberWidget
         | BOOLEAN \<Rightarrow> BooleanWidget
         | DATE \<Rightarrow> DateWidget
         | JSON \<Rightarrow> JsonWidget
         | EMAIL \<Rightarrow> EmailWidget
         | PASSWORD \<Rightarrow> PasswordWidget
         | AUTOCOMPLETE \<Rightarrow> AutocompleteWidget
         | CASCADE_SELECT \<Rightarrow> CascadeSelectWidget
         | DROPDOWN \<Rightarrow> DropdownWidget
         | MEDIA \<Rightarrow> MediaWidget
         | INPUT_TEXTAREA \<Rightarrow> InputTextareaWidget
         | _ \<Rightarrow> DefaultWidget))"

definition hidden_field :: "FieldTypeEnum \<Rightarrow> Field" where
  \<comment> \<open>a field of the given kind with \<open>isVisible: false\<close>\<close>
  "hidden_field k =
     \<lparr>name = ''Secret'', apiId = ''secret'', ftype = k, isVisible = Some False,
      attributes = None, validations = None\<rparr>"

section \<open>Deriving the API ID from the name (FieldConfigDialog: handleNameChange)\<close>

text \<open>
  On the code units 0..255, \<open>toLowerCase\<close> shifts the capital letters A-Z and the
  accented capitals, and \<open>\s\<close> is the six ASCII white-space characters and the
  no-break space.
\<close>

definition toLowerCase_char :: "char \<Rightarrow> char" where
  "toLowerCase_char c =
     (let n = (of_char c :: nat)
      in if (65 \<le> n \<and> n \<le> 90) \<or> (192 \<le> n \<and> n \<le> 214) \<or> (216 \<le> n \<and> n \<le> 222)
         then char_of (n + 32) else c)"

definition toLowerCase :: "string \<Rightarrow> string" where
  "toLowerCase s = map toLowerCase_char s"

definition is_space :: "char \<Rightarrow> bool" where
  \<comment> \<open>\<open>\s\<close>\<close>
  "is_space c = (let n = (of_char c :: nat) in (9 \<le> n \<and> n \<le> 13) \<or> n = 32 \<or> n = 160)"

function replace_space_runs :: "string \<Rightarrow> string" where
  \<comment> \<open>\<open>.replace(/\s+/g, '_')\<close>\<close>
  "replace_space_runs [] = []"
| "replace_space_runs (c # cs) =
     (if is_space c then CHR ''_'' # replace_space_runs (dropWhile is_space cs)
      else c # replace_space_runs cs)"
  by pat_completeness auto
termination
  by (relation "measure length") (auto simp: le_imp_less_Suc length_dropWhile_le)

definition is_apiId_char :: "char \<Rightarrow> bool" where
  \<comment> \<open>\<open>[a-z0-9_]\<close>\<close>
  "is_apiId_char c = (is_lower c \<or> is_digit c \<or> c = CHR ''_'')"

definition derive_apiId :: "string \<Rightarrow> string" where
  \<comment> \<open>\<open>name.toLowerCase().replace(/\s+/g, '_').replace(/[^a-z0-9_]/g, '')\<close>\<close>
  "derive_apiId nm = filter is_apiId_char (replace_space_runs (toLowerCase nm))"

text \<open>
  The form holds the current name and API ID; \<open>field\<close> is the dialog's property, the
  field being edited, absent when a new field is created.
\<close>

record form_values =
  form_name :: string
  form_apiId :: string

definition handleNameChange :: "Field option \<Rightarrow> string \<Rightarrow> form_values \<Rightarrow> form_values" where
  "handleNameChange field nm form =
     (let form = form\<lparr>form_name := nm\<rparr>
      in if (case field of None \<Rightarrow> True | Some f \<Rightarrow> apiId f = [])
         then form\<lparr>form_apiId := derive_apiId nm\<rparr>
         else form)"

section \<open>Results: input masks\<close>

lemma applyMask_phone:
  "applyMask ''5551234567'' ''999-999-9999'' ''_'' = ''555-123-4567''"
  by (simp add: applyMask_def char_at_def is_digit_def)

lemma unmaskValue_phone:
  "unmaskValue ''555-123-4567'' ''999-999-9999'' = ''5551234567''"
  by (simp add: unmaskValue_def char_at_def is_digit_def Let_def)

text \<open>
  Claim C1. Applying the mask 999-999-9999 with slot character _ to the raw input
  5551234567 gives 555-123-4567, and unmasking that result against the same mask
  gives back 5551234567.
\<close>

theorem mask_round_trip_phone:
  "applyMask ''5551234567'' ''999-999-9999'' ''_'' = ''555-123-4567'' \<and>
   unmaskValue (applyMask ''5551234567'' ''999-999-9999'' ''_'') ''999-999-9999'' = ''5551234567''"
  by (simp only: applyMask_phone unmaskValue_phone)

section \<open>Results: password strength\<close>

lemma getPasswordStrength_score:
  "getPasswordStrength p = classify_score (criteria_score p)"
  by (simp add: getPasswordStrength_def classify_score_def criteria_score_def
      password_criteria_def Let_def)

lemma getPasswordStrength_examples:
  "getPasswordStrength ''abc'' = Weak"
  "getPasswordStrength ''Abcdef12'' = Medium"
  "getPasswordStrength ''Abcdef123!@#longenough'' = Strong"
  by (simp_all add: getPasswordStrength_def is_upper_def is_lower_def is_digit_def
      is_alnum_def Let_def)

text \<open>
  Claim C8. The strength of a password is the class of the number of criteria it
  satisfies among the six (length at least 8, length at least 12, an uppercase
  letter, a lowercase letter, a digit, a special character): fewer than 3 is weak,
  fewer than 5 is medium, otherwise strong. In particular abc is weak, Abcdef12 is
  medium (so medium or stronger), and Abcdef123!@#longenough is strong.
\<close>

theorem password_strength_by_score:
  "getPasswordStrength p = classify_score (criteria_score p) \<and>
   getPasswordStrength ''abc'' = Weak \<and>
   getPasswordStrength ''Abcdef12'' = Medium \<and>
   getPasswordStrength ''Abcdef123!@#longenough'' = Strong"
  by (simp add: getPasswordStrength_score [symmetric] getPasswordStrength_examples)

section \<open>Results: field type registry\<close>

lemma enum_value_member: "enum_value k \<in> set FieldTypeEnum_values"
  by (cases k) (simp_all add: FieldTypeEnum_values_def FieldTypeEnum_members_def)

text \<open>
  Claim C7. For every string that is not a value of FieldTypeEnum, the mapping returns
  the value of TEXT and writes one warning; for every string that is a value of the
  enumeration, so for the value of every member, it returns that string and writes
  nothing. The function is total on strings: no input makes it fail.
\<close>

theorem mapFieldTypeNameToEnum_fallback:
  "(nm \<notin> set FieldTypeEnum_values \<longrightarrow>
      mapFieldTypeNameToEnum nm = (enum_value TEXT, [not_found_warning nm])) \<and>
   (nm \<in> set FieldTypeEnum_values \<longrightarrow> mapFieldTypeNameToEnum nm = (nm, [])) \<and>
   mapFieldTypeNameToEnum (enum_value k) = (enum_value k, [])"
  using enum_value_member [of k]
  by (simp add: mapFieldTypeNameToEnum_def)

theorem mapFieldTypeNameToEnum_fallback_witness:
  "''fancy'' \<notin> set FieldTypeEnum_values \<and>
   mapFieldTypeNameToEnum ''fancy''
     = (''text'', [''Field type fancy not found in FieldTypeEnum, defaulting to TEXT'']) \<and>
   ''number'' \<in> set FieldTypeEnum_values \<and>
   mapFieldTypeNameToEnum ''number'' = (''number'', [])"
  using mapFieldTypeNameToEnum_fallback [of "''fancy''" TEXT]
    mapFieldTypeNameToEnum_fallback [of "''number''" TEXT]
  by (simp add: FieldTypeEnum_values_def FieldTypeEnum_members_def not_found_warning_def)

section \<open>Results: default-fill of the configuration engine\<close>

subsection \<open>Lists of default assignments\<close>

lemma fill_value_idem: "fill_value m d (fill_value m d x) = fill_value m d x"
  by (cases m) (auto simp: js_or_def)

lemma assign_defaults_Nil: "assign_defaults [] ob = ob"
  by (simp add: assign_defaults_def)

lemma assign_defaults_Cons: "assign_defaults (r # rs) ob = assign_defaults rs (assign_default r ob)"
  by (simp add: assign_defaults_def)

lemma assign_defaults_other:
  "k \<notin> fst ` set rs \<Longrightarrow> assign_defaults rs ob k = ob k"
proof (induction rs arbitrary: ob)
  case Nil
  show ?case by (simp add: assign_defaults_Nil)
next
  case (Cons r rs)
  obtain k' m d where r: "r = (k', m, d)" by (cases r)
  from Cons.prems r have ne: "k \<noteq> k'" and notin: "k \<notin> fst ` set rs" by auto
  have "assign_defaults rs (assign_default r ob) k = assign_default r ob k"
    using notin by (rule Cons.IH)
  also have "assign_default r ob k = ob k" using r ne by simp
  finally show ?case by (simp add: assign_defaults_Cons)
qed

lemma assign_defaults_key:
  "distinct (map fst rs) \<Longrightarrow> (k, m, d) \<in> set rs \<Longrightarrow>
   assign_defaults rs ob k = Some (fill_value m d (get ob k))"
proof (induction rs arbitrary: ob)
  case Nil
  then show ?case by simp
next
  case (Cons r rs)
  obtain k' m' d' where r: "r = (k', m', d')" by (cases r)
  show ?case
  proof (cases "(k, m, d) = r")
    case True
    with Cons.prems r have "k \<notin> fst ` set rs" by auto
    then have "assign_defaults rs (assign_default r ob) k = assign_default r ob k"
      by (rule assign_defaults_other)
    with True show ?thesis by (auto simp: assign_defaults_Cons)
  next
    case False
    with Cons.prems have mem: "(k, m, d) \<in> set rs" by simp
    with Cons.prems r have "k \<noteq> k'" by force
    then have "get (assign_default r ob) k = get ob k" using r by (simp add: get_def)
    moreover from Cons.prems have "distinct (map fst rs)" by simp
    ultimately show ?thesis using Cons.IH [OF _ mem, of "assign_default r ob"]
      by (simp add: assign_defaults_Cons)
  qed
qed

lemma assign_defaults_idem:
  assumes "distinct (map fst rs)"
  shows "assign_defaults rs (assign_defaults rs ob) = assign_defaults rs ob"
proof (rule ext)
  fix k
  show "assign_defaults rs (assign_defaults rs ob) k = assign_defaults rs ob k"
  proof (cases "k \<in> fst ` set rs")
    case False
    then show ?thesis by (simp add: assign_defaults_other)
  next
    case True
    then obtain m d where mem: "(k, m, d) \<in> set rs" by force
    have 1: "assign_defaults rs ob k = Some (fill_value m d (get ob k))"
      using assms mem by (rule assign_defaults_key)
    have "assign_defaults rs (assign_defaults rs ob) k
            = Some (fill_value m d (get (assign_defaults rs ob) k))"
      using assms mem by (rule assign_defaults_key)
    also have "get (assign_defaults rs ob) k = fill_value m d (get ob k)"
      using 1 by (simp add: get_def)
    finally show ?thesis using 1 by (simp add: fill_value_idem)
  qed
qed

lemma distinct_tables:
  "distinct (map fst TEXT_attributes_defaults)"
  "distinct (map fst TEXT_validations_defaults)"
  "distinct (map fst INPUT_MASK_attributes_defaults)"
  "distinct (map fst (INPUT_MASK_validations_defaults attrs))"
  "distinct (map fst RICH_TEXT_attributes_defaults)"
  "distinct (map fst NUMBER_attributes_defaults)"
  "distinct (map fst NUMBER_validations_defaults)"
  "distinct (map fst DATE_attributes_defaults)"
  "distinct (map fst JSON_attributes_defaults)"
  "distinct (map fst EMAIL_attributes_defaults)"
  "distinct (map fst PASSWORD_attributes_defaults)"
  "distinct (map fst PASSWORD_validations_defaults)"
  "distinct (map fst ENUMERATION_attributes_defaults)"
  "distinct (map fst MEDIA_attributes_defaults)"
  "distinct (map fst RELATION_attributes_defaults)"
  "distinct (map fst AUTOCOMPLETE_attributes_defaults)"
  "distinct (map fst CASCADE_SELECT_attributes_defaults)"
  "distinct (map fst DROPDOWN_attributes_defaults)"
  "distinct (map fst INPUT_TEXTAREA_attributes_defaults)"
  "distinct (map fst INPUT_TEXTAREA_validations_defaults)"
  "distinct (map fst UID_attributes_defaults)"
  by (simp_all add: TEXT_attributes_defaults_def TEXT_validations_defaults_def
      INPUT_MASK_attributes_defaults_def INPUT_MASK_validations_defaults_def
      RICH_TEXT_attributes_defaults_def NUMBER_attributes_defaults_def
      NUMBER_validations_defaults_def DATE_attributes_defaults_def JSON_attributes_defaults_def
      EMAIL_attributes_defaults_def PASSWORD_attributes_defaults_def
      PASSWORD_validations_defaults_def ENUMERATION_attributes_defaults_def
      MEDIA_attributes_defaults_def RELATION_attributes_defaults_def
      AUTOCOMPLETE_attributes_defaults_def CASCADE_SELECT_attributes_defaults_def
      DROPDOWN_attributes_defaults_def INPUT_TEXTAREA_attributes_defaults_def
      INPUT_TEXTAREA_validations_defaults_def UID_attributes_defaults_def)



lemma assign_default_commute:
  "k \<noteq> fst r \<Longrightarrow> assign_default r (ob(k \<mapsto> v)) = (assign_default r ob)(k \<mapsto> v)"
  by (cases r) (auto simp: get_def fun_upd_twist)

lemma assign_defaults_commute:
  "k \<notin> fst ` set rs \<Longrightarrow> assign_defaults rs (ob(k \<mapsto> v)) = (assign_defaults rs ob)(k \<mapsto> v)"
proof (induction rs arbitrary: ob)
  case Nil
  show ?case by (simp add: assign_defaults_Nil)
next
  case (Cons r rs)
  from Cons.prems have ne: "k \<noteq> fst r" and notin: "k \<notin> fst ` set rs" by auto
  have "assign_defaults (r # rs) (ob(k \<mapsto> v)) = assign_defaults rs ((assign_default r ob)(k \<mapsto> v))"
    using ne by (simp add: assign_defaults_Cons assign_default_commute)
  also have "\<dots> = (assign_defaults rs (assign_default r ob))(k \<mapsto> v)"
    using notin by (rule Cons.IH)
  finally show ?case by (simp only: assign_defaults_Cons)
qed

lemma tooltipOptions_fresh: "''tooltipOptions'' \<notin> fst ` set TEXT_attributes_defaults"
  by (simp add: TEXT_attributes_defaults_def)

lemma truthy_js_or_obj: "truthy (js_or x (JObj kvs))"
  by (simp add: js_or_def)

lemma js_or_truthy: "truthy x \<Longrightarrow> js_or x y = x"
  by (simp add: js_or_def)

lemma js_or_idem: "js_or (js_or x d) d = js_or x d"
  by (simp add: js_or_def)

lemma TEXT_attributes_idem: "TEXT_attributes (TEXT_attributes a) = TEXT_attributes a"
proof -
  define a1 where "a1 = assign_defaults TEXT_attributes_defaults a"
  define opts where "opts = JObj [(''position'', js_or (get a1 ''tooltipPosition'') (JStr ''top'')),
            (''event'', js_or (get a1 ''tooltipEvent'') (JStr ''hover''))]"
  define v where "v = js_or (get a1 ''tooltipOptions'') opts"
  have once: "TEXT_attributes a = a1(''tooltipOptions'' \<mapsto> v)"
    by (simp add: TEXT_attributes_def TEXT_tooltipOptions_def Let_def a1_def v_def opts_def)
  have "assign_defaults TEXT_attributes_defaults a1 = a1"
    unfolding a1_def by (rule assign_defaults_idem) (rule distinct_tables)
  then have again: "assign_defaults TEXT_attributes_defaults (a1(''tooltipOptions'' \<mapsto> v))
      = a1(''tooltipOptions'' \<mapsto> v)"
    by (simp add: assign_defaults_commute [OF tooltipOptions_fresh])
  have tv: "truthy v" unfolding v_def opts_def by (rule truthy_js_or_obj)
  have "TEXT_attributes (a1(''tooltipOptions'' \<mapsto> v)) = a1(''tooltipOptions'' \<mapsto> v)"
    unfolding TEXT_attributes_def Let_def again TEXT_tooltipOptions_def
    using tv by (simp add: get_def js_or_truthy)
  with once show ?thesis by simp
qed

lemmas table_idem = distinct_tables [THEN assign_defaults_idem]

lemma common_properties_idem: "common_properties (common_properties fd) = common_properties fd"
  by (simp add: common_properties_def Let_def js_or_def)

lemma kind_defaults_idem: "kind_defaults t (kind_defaults t fd) = kind_defaults t fd"
  unfolding kind_defaults_def
  by (simp add: fill_attributes_def fill_validations_def common_properties_def Let_def
      obj_of_def table_idem TEXT_attributes_idem js_or_idem)

subsection \<open>The whole default-fill\<close>

lemma fd_type_kind_defaults: "fd_type (kind_defaults t fd) = fd_type fd"
  unfolding kind_defaults_def
  by (simp add: fill_attributes_def fill_validations_def common_properties_def Let_def)

lemma ensure_objects_idem: "ensure_objects (ensure_objects fd) = ensure_objects fd"
  by (simp add: ensure_objects_def obj_of_def)

lemma ensure_objects_kind_defaults:
  "ensure_objects (kind_defaults t (ensure_objects fd)) = kind_defaults t (ensure_objects fd)"
  unfolding kind_defaults_def
  by (simp add: ensure_objects_def fill_attributes_def fill_validations_def
      common_properties_def Let_def obj_of_def)

lemma fd_type_ensure_objects: "fd_type (ensure_objects fd) = fd_type fd"
  by (simp add: ensure_objects_def)

lemma default_fill_twice: "default_fill (default_fill fd) = default_fill fd"
  by (simp add: default_fill_def fd_type_kind_defaults fd_type_ensure_objects
      ensure_objects_kind_defaults kind_defaults_idem)

text \<open>
  Claim C2. The default-fill is idempotent: for every form data, of any kind and with
  any attributes and validations, filling the filled data again gives the same
  attributes and the same validations as filling once.
\<close>

theorem default_fill_idempotent:
  "fd_attributes (default_fill (default_fill fd)) = fd_attributes (default_fill fd) \<and>
   fd_validations (default_fill (default_fill fd)) = fd_validations (default_fill fd)"
  by (simp only: default_fill_twice)

subsection \<open>What the default-fill keeps\<close>

lemma TEXT_attributes_rules:
  "TEXT_attributes a = assign_defaults
     (TEXT_attributes_defaults @ [TEXT_tooltipOptions (assign_defaults TEXT_attributes_defaults a)]) a"
  by (simp add: TEXT_attributes_def assign_defaults_def Let_def)

lemma default_fill_attributes:
  "obj_of (fd_attributes (default_fill fd))
     = assign_defaults (attribute_rules (fd_type fd) (obj_of (fd_attributes fd)))
         (obj_of (fd_attributes fd))"
  unfolding default_fill_def kind_defaults_def attribute_rules_def
  by (simp add: fill_attributes_def fill_validations_def common_properties_def Let_def
      ensure_objects_def obj_of_def TEXT_attributes_rules assign_defaults_Nil)

lemma default_fill_validations:
  "obj_of (fd_validations (default_fill fd))
     = assign_defaults (validation_rules (fd_type fd) (obj_of (fd_attributes (default_fill fd))))
         (obj_of (fd_validations fd))"
  unfolding default_fill_def kind_defaults_def validation_rules_def
  by (simp add: fill_attributes_def fill_validations_def common_properties_def Let_def
      ensure_objects_def obj_of_def assign_defaults_Nil)

lemma TEXT_tooltipOptions_key: "fst (TEXT_tooltipOptions a) = ''tooltipOptions''"
  by (simp add: TEXT_tooltipOptions_def)

lemma distinct_attribute_rules: "distinct (map fst (attribute_rules t a))"
  unfolding attribute_rules_def
  using tooltipOptions_fresh by (simp add: distinct_tables TEXT_tooltipOptions_key)

lemma distinct_validation_rules: "distinct (map fst (validation_rules t a))"
  unfolding validation_rules_def by (simp add: distinct_tables)

lemma fill_value_keeps:
  "v \<noteq> JUndefined \<Longrightarrow> m = IfUndefined \<or> truthy v \<or> v = d \<Longrightarrow> fill_value m d v = v"
  by (cases m) (auto simp: js_or_def)

lemma fill_value_empty_string: "fill_value OrElse d (JStr []) = d"
  by (simp add: js_or_def)

lemma fill_value_false:
  "m = OrElse \<longrightarrow> d = JBool False \<Longrightarrow> fill_value m d (JBool False) = JBool False"
  by (cases m) (auto simp: js_or_def)

lemma attribute_rules_bool:
  "(k, OrElse, JBool b) \<in> set (attribute_rules t a) \<Longrightarrow> b = False"
  unfolding attribute_rules_def
  by (auto simp: TEXT_tooltipOptions_def TEXT_attributes_defaults_def
      INPUT_MASK_attributes_defaults_def
      RICH_TEXT_attributes_defaults_def NUMBER_attributes_defaults_def
      DATE_attributes_defaults_def JSON_attributes_defaults_def
      EMAIL_attributes_defaults_def PASSWORD_attributes_defaults_def
      ENUMERATION_attributes_defaults_def
      MEDIA_attributes_defaults_def RELATION_attributes_defaults_def
      AUTOCOMPLETE_attributes_defaults_def CASCADE_SELECT_attributes_defaults_def
      DROPDOWN_attributes_defaults_def INPUT_TEXTAREA_attributes_defaults_def
      UID_attributes_defaults_def split: if_splits)

lemma validation_rules_bool:
  "(k, OrElse, JBool b) \<in> set (validation_rules t a) \<Longrightarrow> k \<noteq> ''mask'' \<Longrightarrow> b = False"
  unfolding validation_rules_def
  by (auto simp: TEXT_validations_defaults_def INPUT_MASK_validations_defaults_def
      NUMBER_validations_defaults_def PASSWORD_validations_defaults_def
      INPUT_TEXTAREA_validations_defaults_def split: if_splits)

lemma get_assign_defaults_rule:
  assumes "distinct (map fst rs)" and "(k, m, d) \<in> set rs"
  shows "get (assign_defaults rs ob) k = fill_value m d (get ob k)"
  using assign_defaults_key [OF assms, of ob] by (simp add: get_def)

lemma rule_keeps_user_value:
  assumes "distinct (map fst rs)" and "ob' = assign_defaults rs ob"
  shows "(k \<notin> fst ` set rs \<longrightarrow> ob' k = ob k) \<and>
         ((k, m, d) \<in> set rs \<longrightarrow>
            (get ob k \<noteq> JUndefined \<and> (m = IfUndefined \<or> truthy (get ob k) \<or> get ob k = d)
               \<longrightarrow> get ob' k = get ob k) \<and>
            (m = OrElse \<and> get ob k = JStr [] \<longrightarrow> get ob' k = d))"
proof (intro conjI impI)
  assume "k \<notin> fst ` set rs"
  then show "ob' k = ob k" by (simp add: assms(2) assign_defaults_other)
next
  assume mem: "(k, m, d) \<in> set rs"
    and "get ob k \<noteq> JUndefined \<and> (m = IfUndefined \<or> truthy (get ob k) \<or> get ob k = d)"
  then have "fill_value m d (get ob k) = get ob k" by (simp add: fill_value_keeps)
  then show "get ob' k = get ob k"
    by (simp add: assms(2) get_assign_defaults_rule [OF assms(1) mem])
next
  assume mem: "(k, m, d) \<in> set rs" and "m = OrElse \<and> get ob k = JStr []"
  then have "fill_value m d (get ob k) = d" using fill_value_empty_string [of d] by simp
  then show "get ob' k = d"
    by (simp add: assms(2) get_assign_defaults_rule [OF assms(1) mem])
qed

lemma rule_keeps_false:
  assumes "distinct (map fst rs)" and "ob' = assign_defaults rs ob"
    and "(k, m, d) \<in> set rs" and "m = OrElse \<longrightarrow> d = JBool False"
    and "get ob k = JBool False"
  shows "get ob' k = JBool False"
  using assms(4,5)
  by (simp add: assms(2) get_assign_defaults_rule [OF assms(1,3)] fill_value_false)

text \<open>
  Claim C3, as amended. For every form data and every key of the attributes, and
  likewise of the validations: if the kind assigns no default to the key, the key is
  left as it is. If it assigns one, a value the user entered (anything but
  \<open>undefined\<close>) is the value after the default-fill whenever the default is guarded
  by \<open>!== undefined\<close>, or the value is truthy, or the value equals the default; so
  \<open>false\<close> is kept on every key whose default is a boolean (\<open>validations.mask\<close>,
  which falls back to \<open>attributes.mask\<close>, aside). Under a \<open>||\<close> default an empty
  string counts as unset and is replaced by the default. Nothing is said of a number
  0 under a \<open>||\<close> default that differs from it.
\<close>

theorem default_fill_keeps_user_values:
  "(let a = obj_of (fd_attributes fd);
        a' = obj_of (fd_attributes (default_fill fd));
        rules = attribute_rules (fd_type fd) a
    in (k \<notin> fst ` set rules \<longrightarrow> a' k = a k) \<and>
       ((k, m, d) \<in> set rules \<longrightarrow>
          (get a k \<noteq> JUndefined \<and> (m = IfUndefined \<or> truthy (get a k) \<or> get a k = d)
             \<longrightarrow> get a' k = get a k) \<and>
          (m = OrElse \<and> get a k = JStr [] \<longrightarrow> get a' k = d) \<and>
          (get a k = JBool False \<and> (\<exists>b. d = JBool b) \<longrightarrow> get a' k = JBool False))) \<and>
   (let vs = obj_of (fd_validations fd);
        vs' = obj_of (fd_validations (default_fill fd));
        rules = validation_rules (fd_type fd) (obj_of (fd_attributes (default_fill fd)))
    in (k \<notin> fst ` set rules \<longrightarrow> vs' k = vs k) \<and>
       ((k, m, d) \<in> set rules \<longrightarrow>
          (get vs k \<noteq> JUndefined \<and> (m = IfUndefined \<or> truthy (get vs k) \<or> get vs k = d)
             \<longrightarrow> get vs' k = get vs k) \<and>
          (m = OrElse \<and> get vs k = JStr [] \<longrightarrow> get vs' k = d) \<and>
          (get vs k = JBool False \<and> (\<exists>b. d = JBool b) \<and> k \<noteq> ''mask''
             \<longrightarrow> get vs' k = JBool False)))"
proof -
  let ?a = "obj_of (fd_attributes fd)" and ?a' = "obj_of (fd_attributes (default_fill fd))"
  let ?vs = "obj_of (fd_validations fd)" and ?vs' = "obj_of (fd_validations (default_fill fd))"
  let ?ra = "attribute_rules (fd_type fd) ?a" and ?rv = "validation_rules (fd_type fd) ?a'"
  have da: "distinct (map fst ?ra)" and dv: "distinct (map fst ?rv)"
    by (rule distinct_attribute_rules, rule distinct_validation_rules)
  have fa: "?a' = assign_defaults ?ra ?a" by (rule default_fill_attributes)
  have fv: "?vs' = assign_defaults ?rv ?vs" by (rule default_fill_validations)
  have fa_false: "get ?a' k = JBool False"
    if "(k, m, d) \<in> set ?ra" and "get ?a k = JBool False" and "\<exists>b. d = JBool b"
  proof (rule rule_keeps_false [OF da fa that(1) _ that(2)])
    show "m = OrElse \<longrightarrow> d = JBool False"
      using that(1,3) attribute_rules_bool [of k _ "fd_type fd" ?a] by auto
  qed
  have fv_false: "get ?vs' k = JBool False"
    if "(k, m, d) \<in> set ?rv" and "get ?vs k = JBool False" and "\<exists>b. d = JBool b"
      and "k \<noteq> ''mask''"
  proof (rule rule_keeps_false [OF dv fv that(1) _ that(2)])
    show "m = OrElse \<longrightarrow> d = JBool False"
      using that(1,3,4) validation_rules_bool [of k _ "fd_type fd" ?a'] by auto
  qed
  show ?thesis
    unfolding Let_def
    using rule_keeps_user_value [OF da fa, of k m d] rule_keeps_user_value [OF dv fv, of k m d]
      fa_false fv_false
    by blast
qed


theorem default_fill_keeps_user_values_witness:
  "''rows'' \<notin> fst ` set (attribute_rules (JStr ''text'') (obj_of (fd_attributes example_falsy_field))) \<and>
   obj_of (fd_attributes (default_fill example_falsy_field)) ''rows'' = Some (JNum (Fin 0)) \<and>
   (''floatLabel'', IfUndefined, JBool True)
      \<in> set (attribute_rules (JStr ''text'') (obj_of (fd_attributes example_falsy_field))) \<and>
   get (obj_of (fd_attributes (default_fill example_falsy_field))) ''floatLabel'' = JBool False \<and>
   (''disabled'', OrElse, JBool False)
      \<in> set (attribute_rules (JStr ''text'') (obj_of (fd_attributes example_falsy_field))) \<and>
   get (obj_of (fd_attributes (default_fill example_falsy_field))) ''disabled'' = JBool False \<and>
   get (obj_of (fd_attributes (default_fill example_falsy_field))) ''helpText'' = JStr [] \<and>
   get (obj_of (fd_attributes (default_fill example_falsy_field))) ''placeholder''
      = JStr ''Enter text...'' \<and>
   get (obj_of (fd_attributes (default_fill example_custom_field))) ''placeholder''
      = JStr ''Your title'' \<and>
   ''required'' \<notin> fst ` set (validation_rules (JStr ''text'')
      (obj_of (fd_attributes (default_fill example_falsy_field)))) \<and>
   obj_of (fd_validations (default_fill example_falsy_field)) ''required'' = Some (JBool False) \<and>
   get (obj_of (fd_validations (default_fill example_falsy_field))) ''regex'' = JStr [] \<and>
   get (obj_of (fd_validations (default_fill example_custom_field))) ''regex'' = JStr ''^a'' \<and>
   (''required'', OrElse, JBool False) \<in> set (validation_rules (JStr ''input_mask'')
      (obj_of (fd_attributes (default_fill example_mask_field)))) \<and>
   get (obj_of (fd_validations (default_fill example_mask_field))) ''required'' = JBool False"
  using
    default_fill_keeps_user_values [of example_falsy_field "''rows''" OrElse JUndefined]
    default_fill_keeps_user_values [of example_falsy_field "''floatLabel''" IfUndefined "JBool True"]
    default_fill_keeps_user_values [of example_falsy_field "''disabled''" OrElse "JBool False"]
    default_fill_keeps_user_values [of example_falsy_field "''helpText''" OrElse "JStr []"]
    default_fill_keeps_user_values [of example_falsy_field "''placeholder''" OrElse
      "JStr ''Enter text...''"]
    default_fill_keeps_user_values [of example_custom_field "''placeholder''" OrElse
      "JStr ''Enter text...''"]
    default_fill_keeps_user_values [of example_falsy_field "''required''" OrElse JUndefined]
    default_fill_keeps_user_values [of example_falsy_field "''regex''" OrElse "JStr []"]
    default_fill_keeps_user_values [of example_custom_field "''regex''" OrElse "JStr []"]
    default_fill_keeps_user_values [of example_mask_field "''required''" OrElse "JBool False"]
  by (simp add: Let_def example_falsy_field_def example_custom_field_def example_mask_field_def
      obj_of_def get_def attribute_rules_def validation_rules_def is_kind_def
      TEXT_attributes_defaults_def TEXT_validations_defaults_def TEXT_tooltipOptions_def
      INPUT_MASK_validations_defaults_def)

text \<open>
  Claim C3 as stated fails for a falsy value: a text field whose placeholder the user
  set to the empty string comes out of the default-fill with the placeholder
  \<open>Enter text...\<close>.
\<close>

theorem default_fill_overwrites_empty_placeholder:
  "obj_of (fd_attributes example_text_field) ''placeholder'' = Some (JStr '''') \<and>
   get (obj_of (fd_attributes (default_fill example_text_field))) ''placeholder''
     = JStr ''Enter text...'' \<and>
   get (obj_of (fd_attributes (default_fill example_text_field))) ''placeholder''
     \<noteq> get (obj_of (fd_attributes example_text_field)) ''placeholder''"
  by (simp add: example_text_field_def default_fill_def kind_defaults_def is_kind_def
      ensure_objects_def fill_attributes_def fill_validations_def obj_of_def
      TEXT_attributes_def TEXT_tooltipOptions_def Let_def assign_defaults_def
      TEXT_attributes_defaults_def get_def js_or_def)

section \<open>Results: deriving the API ID\<close>

lemma toLowerCase_examples:
  "toLowerCase ''My Field!'' = ''my field!''"
  "toLowerCase ''Title2'' = ''title2''"
  by code_simp+

lemma derive_apiId_example: "derive_apiId ''My Field!'' = ''my_field''"
  by (simp add: derive_apiId_def toLowerCase_examples is_space_def
      is_apiId_char_def is_lower_def is_digit_def Let_def)

lemma derive_apiId_chars: "list_all is_apiId_char (derive_apiId nm)"
  by (simp add: derive_apiId_def list_all_iff)

lemma handleNameChange_new_field:
  "handleNameChange None nm form = \<lparr>form_name = nm, form_apiId = derive_apiId nm\<rparr>"
  by (simp add: handleNameChange_def Let_def)

lemma handleNameChange_existing_field:
  "apiId f \<noteq> [] \<Longrightarrow> form_apiId (handleNameChange (Some f) nm form) = form_apiId form"
  by (simp add: handleNameChange_def Let_def)

text \<open>
  Claim C4, at the input where the code departs from it. A new field is being created
  (the dialog has no \<open>field\<close>), the name is Title and the user has typed custom_id
  into the API ID input. Changing the name to Title2 replaces the API ID by title2:
  the handler tests the API ID of the field being edited, not whether the user has
  edited the input.
\<close>

theorem handleNameChange_overwrites_edited_apiId:
  "handleNameChange None ''Title2'' \<lparr>form_name = ''Title'', form_apiId = ''custom_id''\<rparr>
     = \<lparr>form_name = ''Title2'', form_apiId = ''title2''\<rparr>"
  by (simp add: handleNameChange_def derive_apiId_def toLowerCase_examples
      is_space_def is_apiId_char_def is_lower_def is_digit_def Let_def)

section \<open>Results: key filters\<close>

text \<open>
  The matcher decides membership in the language of the pattern; for the patterns
  that are one starred class, and for the signed integers, the language is spelled
  out.
\<close>

lemma nullable_lang: "nullable r \<longleftrightarrow> [] \<in> lang r"
  by (induction r) (auto intro: star.star_empty)

lemma star_cons_iff:
  "c # w \<in> star A \<longleftrightarrow> (\<exists>u v. w = u @ v \<and> c # u \<in> A \<and> v \<in> star A)"
proof
  assume "c # w \<in> star A"
  then show "\<exists>u v. w = u @ v \<and> c # u \<in> A \<and> v \<in> star A"
  proof (induction "c # w" arbitrary: w rule: star.induct)
    case (star_step u v)
    show ?case
    proof (cases u)
      case Nil
      with star_step show ?thesis by simp
    next
      case (Cons a u')
      with star_step.hyps have "w = u' @ v" "c # u' \<in> A" "v \<in> star A" by auto
      then show ?thesis by blast
    qed
  qed
next
  assume "\<exists>u v. w = u @ v \<and> c # u \<in> A \<and> v \<in> star A"
  then obtain u v where "w = u @ v" "c # u \<in> A" "v \<in> star A" by blast
  then show "c # w \<in> star A" using star.star_step [of "c # u" A v] by simp
qed

lemma lang_deriv: "lang (deriv c r) = {w. c # w \<in> lang r}"
proof (induction r)
  case (Seq r s)
  show ?case
  proof (rule set_eqI)
    fix w
    have "c # w \<in> lang (Seq r s) \<longleftrightarrow>
            (\<exists>u v. c # w = u @ v \<and> u \<in> lang r \<and> v \<in> lang s)" by auto
    also have "\<dots> \<longleftrightarrow> ([] \<in> lang r \<and> c # w \<in> lang s) \<or>
            (\<exists>u' v. w = u' @ v \<and> c # u' \<in> lang r \<and> v \<in> lang s)"
      by (auto simp: Cons_eq_append_conv)
    finally show "w \<in> lang (deriv c (Seq r s)) \<longleftrightarrow> w \<in> {w. c # w \<in> lang (Seq r s)}"
      using Seq by (auto simp: nullable_lang)
  qed
next
  case (Star r)
  then show ?case by (auto simp: star_cons_iff)
qed auto

lemma fold_deriv_lang: "nullable (fold deriv s r) \<longleftrightarrow> s \<in> lang r"
  by (induction s arbitrary: r) (simp_all add: nullable_lang lang_deriv)

lemma regex_test_lang: "regex_test r s \<longleftrightarrow> s \<in> lang r"
  by (simp add: regex_test_def fold_deriv_lang)

lemma star_class: "star {[c] | c. p c} = {s. list_all p s}"
proof (rule set_eqI, rule iffI)
  fix s
  assume "s \<in> star {[c] | c. p c}"
  then show "s \<in> {s. list_all p s}" by (induction rule: star.induct) auto
next
  fix s
  assume "s \<in> {s. list_all p s}"
  then have "list_all p s" by simp
  then show "s \<in> star {[c] | c. p c}"
  proof (induction s)
    case Nil
    show ?case by (rule star.star_empty)
  next
    case (Cons a s)
    then have "[a] \<in> {[c] | c. p c}" and "s \<in> star {[c] | c. p c}" by auto
    then have "[a] @ s \<in> star {[c] | c. p c}" by (rule star.star_step)
    then show ?case by simp
  qed
qed

lemma kf_pint_matches: "regex_test kf_pint s \<longleftrightarrow> list_all is_digit s"
  by (simp add: regex_test_lang kf_pint_def star_class)

lemma kf_int_matches:
  "regex_test kf_int s \<longleftrightarrow>
     list_all is_digit s \<or> (\<exists>ds. s = CHR ''-'' # ds \<and> list_all is_digit ds)"
proof -
  have "s \<in> lang kf_int \<longleftrightarrow>
          (\<exists>u v. s = u @ v \<and> (u = [] \<or> u = ''-'') \<and> list_all is_digit v)"
    by (auto simp: kf_int_def Opt_def Chr_def star_class)
  also have "\<dots> \<longleftrightarrow>
          list_all is_digit s \<or> (\<exists>ds. s = CHR ''-'' # ds \<and> list_all is_digit ds)"
  proof
    assume "\<exists>u v. s = u @ v \<and> (u = [] \<or> u = ''-'') \<and> list_all is_digit v"
    then show "list_all is_digit s \<or> (\<exists>ds. s = CHR ''-'' # ds \<and> list_all is_digit ds)"
      by auto
  next
    assume "list_all is_digit s \<or> (\<exists>ds. s = CHR ''-'' # ds \<and> list_all is_digit ds)"
    then show "\<exists>u v. s = u @ v \<and> (u = [] \<or> u = ''-'') \<and> list_all is_digit v"
    proof
      assume "list_all is_digit s"
      then have "s = [] @ s \<and> ([] = [] \<or> [] = ''-'') \<and> list_all is_digit s" by simp
      then show ?thesis by blast
    next
      assume "\<exists>ds. s = CHR ''-'' # ds \<and> list_all is_digit ds"
      then obtain ds where "s = ''-'' @ ds" and "list_all is_digit ds" by auto
      then show ?thesis by blast
    qed
  qed
  finally show ?thesis by (simp add: regex_test_lang)
qed

lemma kf_hex_matches: "regex_test kf_hex s \<longleftrightarrow> list_all is_hex s"
  by (simp add: regex_test_lang kf_hex_def star_class)

lemma kf_alpha_matches: "regex_test kf_alpha s \<longleftrightarrow> list_all is_letter s"
  by (simp add: regex_test_lang kf_alpha_def star_class)

lemma kf_alphanum_matches: "regex_test kf_alphanum s \<longleftrightarrow> list_all is_alnum s"
  by (simp add: regex_test_lang kf_alphanum_def star_class)

lemma text_onChange_class:
  assumes "keyfilter (attributes_of field) = Some kf" and "(kf, r) \<in> set keyfilter_classes"
  shows "text_onChange field v' = (if regex_test r v' then Some v' else None)"
proof -
  have "(kf = ''int'' \<and> r = kf_int) \<or> (kf = ''pint'' \<and> r = kf_pint) \<or>
        (kf = ''num'' \<and> r = kf_num) \<or> (kf = ''pnum'' \<and> r = kf_pnum) \<or>
        (kf = ''money'' \<and> r = kf_money) \<or> (kf = ''hex'' \<and> r = kf_hex) \<or>
        (kf = ''alpha'' \<and> r = kf_alpha) \<or> (kf = ''alphanum'' \<and> r = kf_alphanum)"
    using assms(2) unfolding keyfilter_classes_def by simp
  then show ?thesis
    using assms(1) by (elim disjE conjE) (simp_all add: text_onChange_def)
qed

text \<open>
  Claim C5. For a text field whose key filter is one of int, pint, num, pnum, money,
  hex, alpha, alphanum, and for every proposed value: when the value does not match
  the pattern of the class, the change handler does not call onChange and the form
  data, hence the field's value, stays as it was; when it matches, onChange is called
  with the proposed value, which becomes the field's value. The pattern of int
  matches the digit strings with an optional leading minus sign.
\<close>

theorem text_keyfilter_rejects:
  "keyfilter (attributes_of field) = Some kf \<Longrightarrow> (kf, r) \<in> set keyfilter_classes \<Longrightarrow>
   (regex_test r v' \<longrightarrow>
      text_onChange field v' = Some v' \<and>
      text_input_event field v' d = d(apiId field \<mapsto> JStr v')) \<and>
   (\<not> regex_test r v' \<longrightarrow>
      text_onChange field v' = None \<and> text_input_event field v' d = d) \<and>
   (regex_test kf_int v' \<longleftrightarrow>
      list_all is_digit v' \<or> (\<exists>ds. v' = CHR ''-'' # ds \<and> list_all is_digit ds))"
  by (simp add: text_onChange_class text_input_event_def handleFieldChange_def
      kf_int_matches [symmetric])

theorem text_keyfilter_rejects_witness:
  "keyfilter (attributes_of (filtered_text_field ''int'')) = Some ''int'' \<and>
   (''int'', kf_int) \<in> set keyfilter_classes \<and>
   \<not> regex_test kf_int ''12a'' \<and>
   text_onChange (filtered_text_field ''int'') ''12a'' = None \<and>
   text_input_event (filtered_text_field ''int'') ''12a'' [''qty'' \<mapsto> JStr ''12'']
     = [''qty'' \<mapsto> JStr ''12''] \<and>
   regex_test kf_int ''-12'' \<and>
   text_onChange (filtered_text_field ''int'') ''-12'' = Some ''-12''"
  using text_keyfilter_rejects [of "filtered_text_field ''int''" "''int''" kf_int "''12a''"
      "[''qty'' \<mapsto> JStr ''12'']"]
    text_keyfilter_rejects [of "filtered_text_field ''int''" "''int''" kf_int "''-12''"
      "[''qty'' \<mapsto> JStr ''12'']"]
  by (simp add: filtered_text_field_def attributes_of_def keyfilter_classes_def
      regex_test_def kf_int_def Opt_def Chr_def is_digit_def)

section \<open>Results: blur-time validation\<close>

lemma text_onBlur_examples:
  "fst (text_onBlur RegExp (required_text_field (Some (Fin 3))) ''ab'') = False"
  "fst (text_onBlur RegExp (required_text_field (Some (Fin 3))) ''abc'') = True"
  by (simp_all add: text_onBlur_def required_text_field_def validations_of_def
      length_below_def length_above_def num_truthy_def js_gt_def Let_def)

text \<open>
  Claim C6, at the input where the code departs from it. A required short-text field
  with no other rule, left empty, is computed valid by the blur handler of the text
  input, which never reads \<open>required\<close>; the blur handler of the text area computes
  the same field invalid.
\<close>

theorem text_onBlur_ignores_required:
  "required (validations_of (required_text_field None)) = Some True \<and>
   fst (text_onBlur RegExp (required_text_field None) []) = True \<and>
   fst (textarea_onBlur ((required_text_field None)\<lparr>ftype := INPUT_TEXTAREA\<rparr>) []) = False"
  by (simp add: text_onBlur_def textarea_onBlur_def required_text_field_def validations_of_def
      length_below_def length_above_def Let_def)

section \<open>Results: visibility\<close>

text \<open>
  Claim C9. A field whose isVisible is false renders nothing, whatever its kind, its
  attributes and the current value.
\<close>

theorem renderField_hidden: "isVisible field = Some False \<Longrightarrow> renderField field v = None"
  by (simp add: renderField_def)

theorem renderField_hidden_witness:
  "isVisible (hidden_field PASSWORD) = Some False \<and>
   renderField (hidden_field PASSWORD) (JStr ''hunter2'') = None"
  using renderField_hidden [of "hidden_field PASSWORD" "JStr ''hunter2''"]
  by (simp add: hidden_field_def)

section \<open>Results: typed input of the number widget\<close>

lemma js_lt_trans: "js_lt a b \<Longrightarrow> js_lt b c \<Longrightarrow> js_lt a c"
  by (cases a; cases b; cases c) auto

lemma js_lt_irrefl: "\<not> js_lt a a"
  by (cases a) auto

text \<open>
  Claim C10, as amended. The empty input gives onChange(null). A typed value whose
  parse is below min gives onChange(min), provided max is unset or min is not above
  max. A typed value whose parse is above max gives onChange(max).
\<close>

theorem number_onChange_clamps:
  "number_onChange pf field [] = JNull \<and>
   (val \<noteq> [] \<and> attr_min (attributes_of field) = Some lo \<and> js_lt (pf val) lo \<and>
    (case attr_max (attributes_of field) of None \<Rightarrow> True | Some hi \<Rightarrow> \<not> js_gt lo hi)
      \<longrightarrow> number_onChange pf field val = JNum lo) \<and>
   (val \<noteq> [] \<and> attr_max (attributes_of field) = Some hi \<and> js_gt (pf val) hi
      \<longrightarrow> number_onChange pf field val = JNum hi)"
proof (intro conjI impI)
  show "number_onChange pf field [] = JNull"
    by (simp add: number_onChange_def)
next
  assume "val \<noteq> [] \<and> attr_min (attributes_of field) = Some lo \<and> js_lt (pf val) lo \<and>
    (case attr_max (attributes_of field) of None \<Rightarrow> True | Some hi \<Rightarrow> \<not> js_gt lo hi)"
  then show "number_onChange pf field val = JNum lo"
    by (auto simp: number_onChange_def Let_def split: option.splits)
next
  assume a: "val \<noteq> [] \<and> attr_max (attributes_of field) = Some hi \<and> js_gt (pf val) hi"
  show "number_onChange pf field val = JNum hi"
  proof (cases "attr_min (attributes_of field)")
    case None
    with a show ?thesis by (simp add: number_onChange_def Let_def)
  next
    case (Some lo)
    show ?thesis
    proof (cases "js_lt (pf val) lo")
      case True
      from a have "js_lt hi (pf val)" by (simp add: js_gt_def)
      then have "js_gt lo hi" using True by (auto simp: js_gt_def intro: js_lt_trans)
      with a Some True show ?thesis by (simp add: number_onChange_def Let_def)
    next
      case False
      with a Some show ?thesis by (simp add: number_onChange_def Let_def)
    qed
  qed
qed

theorem number_onChange_clamps_witness:
  "number_onChange parse_digit (number_field (Some (Fin 5)) (Some (Fin 8))) [] = JNull \<and>
   js_lt (parse_digit ''3'') (Fin 5) \<and>
   number_onChange parse_digit (number_field (Some (Fin 5)) (Some (Fin 8))) ''3'' = JNum (Fin 5) \<and>
   js_gt (parse_digit ''9'') (Fin 8) \<and>
   number_onChange parse_digit (number_field (Some (Fin 5)) (Some (Fin 8))) ''9'' = JNum (Fin 8)"
  using number_onChange_clamps [of parse_digit "number_field (Some (Fin 5)) (Some (Fin 8))"
      "''3''" "Fin 5" "Fin 8"]
    number_onChange_clamps [of parse_digit "number_field (Some (Fin 5)) (Some (Fin 8))"
      "''9''" "Fin 5" "Fin 8"]
  by (simp add: number_field_def attributes_of_def parse_digit_def is_digit_def js_gt_def)

text \<open>
  Claim C10 as stated fails when min is above max: with min 8 and max 5, the typed
  value 3 is below min, and the handler calls onChange(5), not onChange(8).
\<close>

theorem number_onChange_below_min_gives_max:
  "attr_min (attributes_of (number_field (Some (Fin 8)) (Some (Fin 5)))) = Some (Fin 8) \<and>
   js_lt (parse_digit ''3'') (Fin 8) \<and>
   number_onChange parse_digit (number_field (Some (Fin 8)) (Some (Fin 5))) ''3'' = JNum (Fin 5) \<and>
   number_onChange parse_digit (number_field (Some (Fin 8)) (Some (Fin 5))) ''3'' \<noteq> JNum (Fin 8)"
  by (simp add: number_onChange_def number_field_def attributes_of_def parse_digit_def
      is_digit_def js_gt_def Let_def)

end
